theory Spec2Isabelle
  imports Main "HOL-Library.Word"
begin

section \<open>Data model\<close>

text \<open>
  A naive UTC \<^verbatim>\<open>datetime\<close> is modelled as the number of microseconds since the epoch
  (the resolution of the Python type); \<^verbatim>\<open>isoformat\<close> followed by \<^verbatim>\<open>fromisoformat\<close> is
  the identity on such values, so the store keeps the number itself.
  Every \<^verbatim>\<open>datetime.utcnow()\<close> of the source is an explicit argument of the operation
  that reads the clock, in the order of the reads.
\<close>

type_synonym time = int

definition seconds :: "int \<Rightarrow> time" where
  "seconds n = n * 1000000"

definition minutes :: "int \<Rightarrow> time" where
  "minutes n = seconds (n * 60)"

definition hours :: "int \<Rightarrow> time" where
  "hours n = minutes (n * 60)"

text \<open>
  A \<^verbatim>\<open>datetime\<close> lies between the first microsecond of year 1 and the last of year 9999,
  and a \<^verbatim>\<open>timedelta\<close> has at most 999999999 days in either direction; building a
  \<^verbatim>\<open>timedelta\<close> or adding one to a \<^verbatim>\<open>datetime\<close> outside these ranges raises
  \<^verbatim>\<open>OverflowError\<close>. The two operations below are used wherever the program computes a time
  from a number the provider sent or from a stored expiry. A clock reading is a
  present-day time: its sums with the configured session duration and with five minutes
  are taken as representable.
\<close>

definition datetime_min :: time where
  "datetime_min = - 62135596800000000"

definition datetime_max :: time where
  "datetime_max = 253402300799999999"

definition representable :: "time \<Rightarrow> bool" where
  "representable t = (datetime_min \<le> t \<and> t \<le> datetime_max)"

text \<open>
  The three tables of \<^verbatim>\<open>storage.py\<close>, keyed by their primary keys. The columns
  \<^verbatim>\<open>created_at\<close> and \<^verbatim>\<open>updated_at\<close> are filled by the database and never read by the
  program; they are not part of the rows below.
\<close>

record session_row =
  s_user_sub :: string
  s_user_email :: string
  s_expires_at :: time
  s_revoked :: bool

record token_row =
  t_user_email :: string
  t_access_token :: string
  t_refresh_token :: string
  t_token_expires_at :: time

record code_row =
  c_user_sub :: string
  c_expires_at :: time
  c_used :: bool

record pkce_entry =
  code_verifier :: string
  code_challenge :: string

text \<open>
  Outbound HTTP calls are effects of the program: each call made is appended to
  \<open>requests\<close>. The provider's answer is an argument of the operation that calls it.
\<close>

datatype http_request =
    TokenPost "(string \<times> string) list"
  | UserinfoGet string

record world =
  sessions :: "string \<rightharpoonup> session_row"
  user_tokens :: "string \<rightharpoonup> token_row"
  exchange_codes :: "string \<rightharpoonup> code_row"
  pkce_store :: "string \<rightharpoonup> pkce_entry"
  requests :: "http_request list"

definition empty_world :: world where
  "empty_world = \<lparr>sessions = Map.empty, user_tokens = Map.empty,
     exchange_codes = Map.empty, pkce_store = Map.empty, requests = []\<rparr>"

record config =
  secret_key :: string
  algorithm :: string
  duration_hours :: int
  client_id :: string
  client_secret :: string
  redirect_uri :: string
  scopes :: "string list"

datatype exn =
  ValueError | HTTPError | JSONDecodeError | KeyError | IntegrityError | OverflowError

text \<open>\<^verbatim>\<open>timedelta(seconds=n)\<close> for an integer \<open>n\<close>, and \<^verbatim>\<open>datetime + timedelta\<close>.\<close>

definition timedelta_seconds :: "int \<Rightarrow> exn + time" where
  "timedelta_seconds n =
     (if - 999999999 \<le> n div 86400 \<and> n div 86400 \<le> 999999999 then Inr (seconds n)
      else Inl OverflowError)"

definition datetime_add :: "time \<Rightarrow> time \<Rightarrow> exn + time" where
  "datetime_add t delta =
     (if representable (t + delta) then Inr (t + delta) else Inl OverflowError)"

text \<open>\<^verbatim>\<open>datetime.utcnow() + timedelta(seconds=expires_in)\<close>.\<close>

definition expiry_after :: "time \<Rightarrow> int \<Rightarrow> exn + time" where
  "expiry_after now expires_in =
     (case timedelta_seconds expires_in of
        Inl e \<Rightarrow> Inl e
      | Inr delta \<Rightarrow> datetime_add now delta)"

section \<open>Storage (\<^verbatim>\<open>storage.py\<close>)\<close>

text \<open>\<^verbatim>\<open>INSERT OR REPLACE INTO sessions (jti, user_sub, user_email, expires_at)\<close>:
  the row is replaced as a whole, \<^verbatim>\<open>revoked\<close> taking its default 0.\<close>

definition save_session_sync :: "string \<Rightarrow> string \<Rightarrow> string \<Rightarrow> time \<Rightarrow> world \<Rightarrow> world" where
  "save_session_sync jti user_sub user_email expires_at w =
     w\<lparr>sessions := (sessions w)(jti \<mapsto>
        \<lparr>s_user_sub = user_sub, s_user_email = user_email,
         s_expires_at = expires_at, s_revoked = False\<rparr>)\<rparr>"

text \<open>\<^verbatim>\<open>SELECT * FROM sessions WHERE jti = ? AND revoked = 0\<close>.\<close>

definition get_session_sync :: "string \<Rightarrow> world \<Rightarrow> session_row option" where
  "get_session_sync jti w =
     (case sessions w jti of
        None \<Rightarrow> None
      | Some row \<Rightarrow> if s_revoked row then None else Some row)"

text \<open>\<^verbatim>\<open>UPDATE sessions SET revoked = 1 WHERE jti = ?\<close>: no row, no change.\<close>

definition revoke_session_sync :: "string \<Rightarrow> world \<Rightarrow> world" where
  "revoke_session_sync jti w =
     (case sessions w jti of
        None \<Rightarrow> w
      | Some row \<Rightarrow> w\<lparr>sessions := (sessions w)(jti \<mapsto> row\<lparr>s_revoked := True\<rparr>)\<rparr>)"

definition save_user_tokens_sync ::
  "string \<Rightarrow> string \<Rightarrow> string \<Rightarrow> string \<Rightarrow> time \<Rightarrow> world \<Rightarrow> world" where
  "save_user_tokens_sync user_sub user_email access_token refresh_token expires_at w =
     w\<lparr>user_tokens := (user_tokens w)(user_sub \<mapsto>
        \<lparr>t_user_email = user_email, t_access_token = access_token,
         t_refresh_token = refresh_token, t_token_expires_at = expires_at\<rparr>)\<rparr>"

definition get_user_tokens_sync :: "string \<Rightarrow> world \<Rightarrow> token_row option" where
  "get_user_tokens_sync user_sub w = user_tokens w user_sub"

text \<open>\<^verbatim>\<open>INSERT INTO exchange_codes (code, user_sub, expires_at)\<close>: a plain insert, which
  the primary key refuses for a code already in the table.\<close>

definition save_exchange_code_sync :: "string \<Rightarrow> string \<Rightarrow> time \<Rightarrow> world \<Rightarrow> exn + world" where
  "save_exchange_code_sync code user_sub expires_at w =
     (case exchange_codes w code of
        Some _ \<Rightarrow> Inl IntegrityError
      | None \<Rightarrow> Inr (w\<lparr>exchange_codes := (exchange_codes w)(code \<mapsto>
          \<lparr>c_user_sub = user_sub, c_expires_at = expires_at, c_used = False\<rparr>)\<rparr>))"

text \<open>
  \<^verbatim>\<open>_use_exchange_code_sync\<close> is a \<^verbatim>\<open>SELECT\<close> followed, after the checks, by a separate
  \<^verbatim>\<open>UPDATE\<close> and commit. The two statements are the two functions below; the method is
  their composition.
\<close>

definition select_exchange_code :: "string \<Rightarrow> world \<Rightarrow> code_row option" where
  "select_exchange_code code w = exchange_codes w code"

definition mark_exchange_code_used :: "string \<Rightarrow> world \<Rightarrow> world" where
  "mark_exchange_code_used code w =
     (case exchange_codes w code of
        None \<Rightarrow> w
      | Some row \<Rightarrow> w\<lparr>exchange_codes := (exchange_codes w)(code \<mapsto> row\<lparr>c_used := True\<rparr>)\<rparr>)"

text \<open>The part of the method after \<^verbatim>\<open>fetchone\<close>: the checks on the fetched row, then
  the update.\<close>

definition use_fetched_row :: "time \<Rightarrow> string \<Rightarrow> code_row option \<Rightarrow> world \<Rightarrow> string option \<times> world" where
  "use_fetched_row now code row w =
     (case row of
        None \<Rightarrow> (None, w)
      | Some r \<Rightarrow>
          if c_used r then (None, w)
          else if now > c_expires_at r then (None, w)
          else (Some (c_user_sub r), mark_exchange_code_used code w))"

definition use_exchange_code_sync :: "time \<Rightarrow> string \<Rightarrow> world \<Rightarrow> string option \<times> world" where
  "use_exchange_code_sync now code w =
     use_fetched_row now code (select_exchange_code code w) w"

section \<open>Signed credentials (the PyJWT calls of \<^verbatim>\<open>session.py\<close>)\<close>

text \<open>
  The claim set of a credential. The program writes all five claims; a credential signed
  elsewhere with the same key may lack \<^verbatim>\<open>jti\<close>, \<^verbatim>\<open>iat\<close> or \<^verbatim>\<open>exp\<close>. Time claims are whole
  seconds, as PyJWT writes them.
\<close>

record claims =
  jti :: "string option"
  sub :: string
  email :: string
  iat :: "int option"
  exp :: "int option"

text \<open>
  A credential is modelled symbolically: either a claim set together with the key and
  algorithm it was signed with, or a string that is no such token at all. A signature
  verifies exactly under the key that made it.
\<close>

datatype credential =
    Signed string string claims
  | Malformed string

datatype jwt_error = ExpiredSignatureError | InvalidTokenError

text \<open>\<^verbatim>\<open>ExpiredSignatureError\<close> is a subclass of \<^verbatim>\<open>InvalidTokenError\<close>: a handler for the
  latter catches both.\<close>

definition timegm :: "time \<Rightarrow> int" where
  "timegm t = t div 1000000"

definition jwt_encode :: "claims \<Rightarrow> string \<Rightarrow> string \<Rightarrow> credential" where
  "jwt_encode payload key alg = Signed key alg payload"

text \<open>
  The two time checks of the decoder's default options. An \<^verbatim>\<open>iat\<close> claim later than the
  clock is refused (\<^verbatim>\<open>ImmatureSignatureError\<close>, an \<^verbatim>\<open>InvalidTokenError\<close>); an \<^verbatim>\<open>exp\<close> claim
  not after the clock is refused (\<^verbatim>\<open>ExpiredSignatureError\<close>).
\<close>

definition immature :: "time \<Rightarrow> claims \<Rightarrow> bool" where
  "immature now payload = (case iat payload of None \<Rightarrow> False | Some i \<Rightarrow> now < seconds i)"

definition expired :: "time \<Rightarrow> claims \<Rightarrow> bool" where
  "expired now payload = (case exp payload of None \<Rightarrow> False | Some e \<Rightarrow> seconds e \<le> now)"

text \<open>
  \<^verbatim>\<open>jwt.decode(token, key, algorithms=[...])\<close> with its default options: the header's
  algorithm must be one of those allowed, the signature must verify, then \<^verbatim>\<open>iat\<close> and
  \<^verbatim>\<open>exp\<close> are checked against the current time, in this order.
\<close>

definition jwt_decode :: "time \<Rightarrow> credential \<Rightarrow> string \<Rightarrow> string list \<Rightarrow> jwt_error + claims" where
  "jwt_decode now token key algorithms =
     (case token of
        Malformed _ \<Rightarrow> Inl InvalidTokenError
      | Signed k a payload \<Rightarrow>
          if a \<notin> set algorithms then Inl InvalidTokenError
          else if k \<noteq> key then Inl InvalidTokenError
          else if immature now payload then Inl InvalidTokenError
          else if expired now payload then Inl ExpiredSignatureError
          else Inr payload)"

section \<open>Session manager (\<^verbatim>\<open>auth/session.py\<close>)\<close>

text \<open>\<open>new_jti\<close> is the value drawn by \<^verbatim>\<open>secrets.token_urlsafe(32)\<close>.\<close>

definition create_session ::
  "config \<Rightarrow> time \<Rightarrow> string \<Rightarrow> string \<Rightarrow> string \<Rightarrow> world \<Rightarrow> credential \<times> world" where
  "create_session cfg now new_jti user_sub user_email w =
     (let expires_at = now + hours (duration_hours cfg);
          w' = save_session_sync new_jti user_sub user_email expires_at w;
          payload = \<lparr>jti = Some new_jti, sub = user_sub, email = user_email,
                     iat = Some (timegm now), exp = Some (timegm expires_at)\<rparr>
      in (jwt_encode payload (secret_key cfg) (algorithm cfg), w'))"

text \<open>\<open>now_jwt\<close> is the clock as \<^verbatim>\<open>jwt.decode\<close> reads it, \<open>now\<close> the later
  \<^verbatim>\<open>datetime.utcnow()\<close> of the check against the store.\<close>

definition verify_session :: "config \<Rightarrow> time \<Rightarrow> time \<Rightarrow> credential \<Rightarrow> world \<Rightarrow> claims option" where
  "verify_session cfg now_jwt now token w =
     (case jwt_decode now_jwt token (secret_key cfg) [algorithm cfg] of
        Inl ExpiredSignatureError \<Rightarrow> None
      | Inl InvalidTokenError \<Rightarrow> None
      | Inr payload \<Rightarrow>
          (case jti payload of
             None \<Rightarrow> None
           | Some j \<Rightarrow>
               if j = [] then None
               else (case get_session_sync j w of
                       None \<Rightarrow> None
                     | Some session \<Rightarrow>
                         if now > s_expires_at session then None
                         else Some payload)))"

text \<open>The handler of \<open>revoke_session\<close> catches \<^verbatim>\<open>InvalidTokenError\<close>, hence every
  decoding error; \<^verbatim>\<open>if jti:\<close> is false for a missing and for an empty \<^verbatim>\<open>jti\<close>.\<close>

definition revoke_session :: "config \<Rightarrow> time \<Rightarrow> credential \<Rightarrow> world \<Rightarrow> bool \<times> world" where
  "revoke_session cfg now_jwt token w =
     (case jwt_decode now_jwt token (secret_key cfg) [algorithm cfg] of
        Inl _ \<Rightarrow> (False, w)
      | Inr payload \<Rightarrow>
          (case jti payload of
             None \<Rightarrow> (False, w)
           | Some j \<Rightarrow>
               if j = [] then (False, w)
               else (True, revoke_session_sync j w)))"

text \<open>\<open>new_code\<close> is the value drawn by \<^verbatim>\<open>secrets.token_urlsafe(32)\<close>.\<close>

definition create_exchange_code :: "time \<Rightarrow> string \<Rightarrow> string \<Rightarrow> world \<Rightarrow> exn + (string \<times> world)" where
  "create_exchange_code now new_code user_sub w =
     (case save_exchange_code_sync new_code user_sub (now + minutes 5) w of
        Inl e \<Rightarrow> Inl e
      | Inr w' \<Rightarrow> Inr (new_code, w'))"

text \<open>\<open>now_use\<close> is the clock read inside the store's redemption, \<open>now_new\<close> the one
  read by \<open>create_session\<close>.\<close>

definition exchange_code_for_session ::
  "config \<Rightarrow> time \<Rightarrow> time \<Rightarrow> string \<Rightarrow> string \<Rightarrow> world \<Rightarrow> credential option \<times> world" where
  "exchange_code_for_session cfg now_use now_new new_jti code w =
     (case use_exchange_code_sync now_use code w of
        (None, w1) \<Rightarrow> (None, w1)
      | (Some user_sub, w1) \<Rightarrow>
          if user_sub = [] then (None, w1)
          else
            (let user_email = (case get_user_tokens_sync user_sub w1 of
                                 None \<Rightarrow> []
                               | Some row \<Rightarrow> t_user_email row)
             in case create_session cfg now_new new_jti user_sub user_email w1 of
                  (token, w2) \<Rightarrow> (Some token, w2)))"

text \<open>
  Every write to the three tables goes through one of the five writing methods of
  \<^verbatim>\<open>Storage\<close>. A later history of the store is a list of such calls; a refused insert
  leaves the store as it was.
\<close>

datatype store_op =
    SaveSession string string string time
  | RevokeSession string
  | SaveUserTokens string string string string time
  | SaveExchangeCode string string time
  | UseExchangeCode time string

fun apply_store_op :: "store_op \<Rightarrow> world \<Rightarrow> world" where
  "apply_store_op (SaveSession j u e t) w = save_session_sync j u e t w"
| "apply_store_op (RevokeSession j) w = revoke_session_sync j w"
| "apply_store_op (SaveUserTokens u e a r t) w = save_user_tokens_sync u e a r t w"
| "apply_store_op (SaveExchangeCode c u t) w =
     (case save_exchange_code_sync c u t w of Inl _ \<Rightarrow> w | Inr w' \<Rightarrow> w')"
| "apply_store_op (UseExchangeCode t c) w = snd (use_exchange_code_sync t c w)"

fun apply_store_ops :: "store_op list \<Rightarrow> world \<Rightarrow> world" where
  "apply_store_ops [] w = w"
| "apply_store_ops (x # xs) w = apply_store_ops xs (apply_store_op x w)"

text \<open>The values of \<^verbatim>\<open>config.py\<close>; the signing key and the client data come from the
  environment.\<close>

definition settings :: "string \<Rightarrow> string \<Rightarrow> string \<Rightarrow> string \<Rightarrow> config" where
  "settings key cid csecret uri =
     \<lparr>secret_key = key, algorithm = ''HS256'', duration_hours = 24,
      client_id = cid, client_secret = csecret, redirect_uri = uri,
      scopes = [''openid'', ''profile'', ''email'',
        ''https://www.googleapis.com/auth/calendar.events'',
        ''https://www.googleapis.com/auth/calendar.readonly'']\<rparr>"


section \<open>Redemption as two statements run by concurrent callers\<close>

text \<open>
  \<^verbatim>\<open>use_exchange_code\<close> hands \<^verbatim>\<open>_use_exchange_code_sync\<close> to a worker thread
  (\<^verbatim>\<open>asyncio.to_thread\<close>), each call on a connection of its own, so several calls can be
  in flight at once. A caller of \<open>exchange_code_for_session\<close> is in one of four places:
  before the \<^verbatim>\<open>SELECT\<close>, holding the fetched row, back from the store with its answer,
  or finished. The database runs one statement at a time; a step is one statement of one
  caller. The caller carries the \<^verbatim>\<open>jti\<close> it will draw.
\<close>

datatype redeemer =
    Calling string string
  | Fetched string string "code_row option"
  | Redeemed string "string option"
  | Finished "credential option"

text \<open>The part of \<open>exchange_code_for_session\<close> after the store has answered.\<close>

definition session_for_redeemed ::
  "config \<Rightarrow> time \<Rightarrow> string \<Rightarrow> string option \<Rightarrow> world \<Rightarrow> credential option \<times> world" where
  "session_for_redeemed cfg now_new new_jti answer w1 =
     (case answer of
        None \<Rightarrow> (None, w1)
      | Some user_sub \<Rightarrow>
          if user_sub = [] then (None, w1)
          else
            (let user_email = (case get_user_tokens_sync user_sub w1 of
                                 None \<Rightarrow> []
                               | Some row \<Rightarrow> t_user_email row)
             in case create_session cfg now_new new_jti user_sub user_email w1 of
                  (token, w2) \<Rightarrow> (Some token, w2)))"

fun redeemer_step :: "config \<Rightarrow> time \<Rightarrow> redeemer \<Rightarrow> world \<Rightarrow> redeemer \<times> world" where
  "redeemer_step cfg now (Calling code new_jti) w =
     (Fetched code new_jti (select_exchange_code code w), w)"
| "redeemer_step cfg now (Fetched code new_jti row) w =
     (case use_fetched_row now code row w of (answer, w') \<Rightarrow> (Redeemed new_jti answer, w'))"
| "redeemer_step cfg now (Redeemed new_jti answer) w =
     (case session_for_redeemed cfg now new_jti answer w of (res, w') \<Rightarrow> (Finished res, w'))"
| "redeemer_step cfg now (Finished res) w = (Finished res, w)"

text \<open>A schedule names, step by step, the clock and the caller that moves.\<close>

fun run_schedule ::
  "config \<Rightarrow> (time \<times> nat) list \<Rightarrow> redeemer list \<Rightarrow> world \<Rightarrow> redeemer list \<times> world" where
  "run_schedule cfg [] callers w = (callers, w)"
| "run_schedule cfg ((now, i) # schedule) callers w =
     (if i < length callers
      then (case redeemer_step cfg now (callers ! i) w of
              (c', w') \<Rightarrow> run_schedule cfg schedule (callers[i := c']) w')
      else run_schedule cfg schedule callers w)"

text \<open>Calls that do not overlap: each \<open>exchange_code_for_session\<close> returns before the
  next one starts. A call is its two clock readings and the \<^verbatim>\<open>jti\<close> it draws.\<close>

fun redeem_in_turn ::
  "config \<Rightarrow> (time \<times> time \<times> string) list \<Rightarrow> string \<Rightarrow> world \<Rightarrow> credential option list \<times> world" where
  "redeem_in_turn cfg [] code w = ([], w)"
| "redeem_in_turn cfg ((now_use, now_new, new_jti) # calls) code w =
     (case exchange_code_for_session cfg now_use now_new new_jti code w of
        (res, w') \<Rightarrow>
          (case redeem_in_turn cfg calls code w' of (rs, w'') \<Rightarrow> (res # rs, w'')))"

section \<open>PKCE (\<^verbatim>\<open>generate_pkce\<close> of \<^verbatim>\<open>auth/oauth.py\<close>)\<close>

type_synonym byte = "8 word"

definition b64_alphabet :: string where
  "b64_alphabet = ''ABCDEFGHIJKLMNOPQRSTUVWXYZabcdefghijklmnopqrstuvwxyz0123456789-_''"

text \<open>The character of a six-bit value (every index below is less than 64).\<close>

definition b64_char :: "nat \<Rightarrow> char" where
  "b64_char i = b64_alphabet ! (i mod 64)"

text \<open>\<^verbatim>\<open>base64.urlsafe_b64encode\<close>: three bytes give four characters of the URL-safe
  alphabet; a last group of one or two bytes is padded with \<^verbatim>\<open>=\<close> to four characters.\<close>

fun urlsafe_b64encode :: "byte list \<Rightarrow> string" where
  "urlsafe_b64encode [] = []"
| "urlsafe_b64encode [a] =
     [b64_char (unat a div 4), b64_char (unat a mod 4 * 16), CHR ''='', CHR ''='']"
| "urlsafe_b64encode [a, b] =
     [b64_char (unat a div 4), b64_char (unat a mod 4 * 16 + unat b div 16),
      b64_char (unat b mod 16 * 4), CHR ''='']"
| "urlsafe_b64encode (a # b # c # rest) =
     [b64_char (unat a div 4), b64_char (unat a mod 4 * 16 + unat b div 16),
      b64_char (unat b mod 16 * 4 + unat c div 64), b64_char (unat c mod 64)]
     @ urlsafe_b64encode rest"

text \<open>\<^verbatim>\<open>str.rstrip(chars)\<close> for a single character.\<close>

definition rstrip :: "char \<Rightarrow> string \<Rightarrow> string" where
  "rstrip c s = rev (dropWhile (\<lambda>x. x = c) (rev s))"

text \<open>\<^verbatim>\<open>str.encode('utf-8')\<close>; a \<open>string\<close> here is already the sequence of the bytes.\<close>

definition encode_utf8 :: "string \<Rightarrow> byte list" where
  "encode_utf8 s = map (\<lambda>c. of_nat (of_char c)) s"

text \<open>\<open>sha256\<close> stands for \<^verbatim>\<open>hashlib.sha256(...).digest()\<close> and \<open>random32\<close> for the value
  of \<^verbatim>\<open>secrets.token_bytes(32)\<close>.\<close>

definition generate_pkce :: "(byte list \<Rightarrow> byte list) \<Rightarrow> byte list \<Rightarrow> string \<times> string" where
  "generate_pkce sha256 random32 =
     (let verifier = rstrip CHR ''='' (urlsafe_b64encode random32);
          challenge_bytes = sha256 (encode_utf8 verifier);
          challenge = rstrip CHR ''='' (urlsafe_b64encode challenge_bytes)
      in (verifier, challenge))"

text \<open>
  The unpadded base64url encoding as the specification names it
  (\<^verbatim>\<open>base64url_nopad\<close>), written on its own: the same groups, and a last group of one or
  two bytes gives two or three characters, with no padding character at all.
\<close>

fun base64url_nopad :: "byte list \<Rightarrow> string" where
  "base64url_nopad [] = []"
| "base64url_nopad [a] = [b64_char (unat a div 4), b64_char (unat a mod 4 * 16)]"
| "base64url_nopad [a, b] =
     [b64_char (unat a div 4), b64_char (unat a mod 4 * 16 + unat b div 16),
      b64_char (unat b mod 16 * 4)]"
| "base64url_nopad (a # b # c # rest) =
     [b64_char (unat a div 4), b64_char (unat a mod 4 * 16 + unat b div 16),
      b64_char (unat b mod 16 * 4 + unat c div 64), b64_char (unat c mod 64)]
     @ base64url_nopad rest"

section \<open>Authorization flow (\<^verbatim>\<open>auth/oauth.py\<close>)\<close>

text \<open>
  What a provider call can come to: no response at all (a transport error), or a
  response with a status and a body; the body is \<open>None\<close> when it is not the JSON object
  the caller reads. \<^verbatim>\<open>raise_for_status\<close> accepts exactly the 2xx statuses; its error and
  the transport errors are all \<^verbatim>\<open>httpx.HTTPError\<close>.
\<close>

datatype 'a http_result = TransportError | Response nat "'a option"

definition is_success :: "nat \<Rightarrow> bool" where
  "is_success status = (200 \<le> status \<and> status \<le> 299)"

record token_json =
  j_access_token :: "string option"
  j_refresh_token :: "string option"
  j_expires_in :: "int option"

record userinfo_json =
  u_sub :: "string option"
  u_email :: "string option"
  u_name :: "string option"

record login_result =
  r_user_sub :: string
  r_user_email :: string
  r_user_name :: string
  r_tokens :: token_json

definition auth_endpoint :: string where
  "auth_endpoint = ''https://accounts.google.com/o/oauth2/v2/auth''"

text \<open>\<^verbatim>\<open>dict.get(key, default)\<close> on a parsed JSON object.\<close>

definition get_or :: "'a option \<Rightarrow> 'a \<Rightarrow> 'a" where
  "get_or v d = (case v of None \<Rightarrow> d | Some x \<Rightarrow> x)"

text \<open>\<^verbatim>\<open>" ".join(...)\<close>.\<close>

fun join_spaces :: "string list \<Rightarrow> string" where
  "join_spaces [] = []"
| "join_spaces [x] = x"
| "join_spaces (x # y # ys) = x @ '' '' @ join_spaces (y # ys)"

text \<open>\<open>new_state\<close> is the value drawn by \<^verbatim>\<open>secrets.token_urlsafe(32)\<close>. The URL is
  returned as its endpoint and its query parameters, before \<^verbatim>\<open>urlencode\<close>.\<close>

definition get_authorization_url ::
  "config \<Rightarrow> (byte list \<Rightarrow> byte list) \<Rightarrow> string \<Rightarrow> byte list \<Rightarrow> world
     \<Rightarrow> ((string \<times> (string \<times> string) list) \<times> string) \<times> world" where
  "get_authorization_url cfg sha256 new_state random32 w =
     (case generate_pkce sha256 random32 of (verifier, challenge) \<Rightarrow>
        (let w' = w\<lparr>pkce_store := (pkce_store w)(new_state \<mapsto>
                     \<lparr>code_verifier = verifier, code_challenge = challenge\<rparr>)\<rparr>;
             params = [(''client_id'', client_id cfg),
                       (''redirect_uri'', redirect_uri cfg),
                       (''response_type'', ''code''),
                       (''scope'', join_spaces (scopes cfg)),
                       (''state'', new_state),
                       (''code_challenge'', challenge),
                       (''code_challenge_method'', ''S256''),
                       (''access_type'', ''offline''),
                       (''prompt'', ''consent'')]
         in (((auth_endpoint, params), new_state), w')))"

definition get_userinfo ::
  "string \<Rightarrow> userinfo_json http_result \<Rightarrow> world \<Rightarrow> (exn + userinfo_json) \<times> world" where
  "get_userinfo access_token answer w =
     (let w' = w\<lparr>requests := requests w @ [UserinfoGet access_token]\<rparr>
      in case answer of
           TransportError \<Rightarrow> (Inl HTTPError, w')
         | Response status body \<Rightarrow>
             if \<not> is_success status then (Inl HTTPError, w')
             else (case body of
                     None \<Rightarrow> (Inl JSONDecodeError, w')
                   | Some userinfo \<Rightarrow> (Inr userinfo, w')))"

text \<open>\<open>token_answer\<close> and \<open>userinfo_answer\<close> are what the two provider calls come to,
  \<open>now\<close> is the clock read after both.\<close>

definition exchange_code ::
  "config \<Rightarrow> time \<Rightarrow> token_json http_result \<Rightarrow> userinfo_json http_result \<Rightarrow> string \<Rightarrow> string
     \<Rightarrow> world \<Rightarrow> (exn + login_result) \<times> world" where
  "exchange_code cfg now token_answer userinfo_answer code state w =
     (case pkce_store w state of
        None \<Rightarrow> (Inl ValueError, w)
      | Some pkce_data \<Rightarrow>
          (let w1 = w\<lparr>pkce_store := (pkce_store w)(state := None)\<rparr>;
               data = [(''client_id'', client_id cfg),
                       (''client_secret'', client_secret cfg),
                       (''code'', code),
                       (''code_verifier'', code_verifier pkce_data),
                       (''grant_type'', ''authorization_code''),
                       (''redirect_uri'', redirect_uri cfg)];
               w2 = w1\<lparr>requests := requests w1 @ [TokenPost data]\<rparr>
           in case token_answer of
                TransportError \<Rightarrow> (Inl HTTPError, w2)
              | Response status body \<Rightarrow>
                  if \<not> is_success status then (Inl HTTPError, w2)
                  else (case body of
                     None \<Rightarrow> (Inl JSONDecodeError, w2)
                   | Some tokens \<Rightarrow>
                      (case j_access_token tokens of
                         None \<Rightarrow> (Inl KeyError, w2)
                       | Some access_token \<Rightarrow>
                          (case get_userinfo access_token userinfo_answer w2 of
                             (Inl e, w3) \<Rightarrow> (Inl e, w3)
                           | (Inr userinfo, w3) \<Rightarrow>
                              (let expires_in = get_or (j_expires_in tokens) 3600
                               in case expiry_after now expires_in of
                                    Inl e \<Rightarrow> (Inl e, w3)
                                  | Inr expires_at \<Rightarrow>
                                     (case u_sub userinfo of
                                        None \<Rightarrow> (Inl KeyError, w3)
                                      | Some user_sub \<Rightarrow>
                                          (Inr \<lparr>r_user_sub = user_sub,
                                                r_user_email = get_or (u_email userinfo) [],
                                                r_user_name = get_or (u_name userinfo) [],
                                                r_tokens = tokens\<rparr>,
                                           save_user_tokens_sync user_sub
                                             (get_or (u_email userinfo) []) access_token
                                             (get_or (j_refresh_token tokens) []) expires_at
                                             w3))))))))"

text \<open>The handler of \<open>refresh_access_token\<close> catches \<^verbatim>\<open>httpx.HTTPError\<close> only: a body
  that is not JSON, a JSON object without \<^verbatim>\<open>access_token\<close>, or an \<^verbatim>\<open>expires_in\<close> out of
  range raises past it.\<close>

definition refresh_access_token ::
  "config \<Rightarrow> time \<Rightarrow> token_json http_result \<Rightarrow> string \<Rightarrow> world \<Rightarrow> (exn + string option) \<times> world" where
  "refresh_access_token cfg now token_answer user_sub w =
     (case get_user_tokens_sync user_sub w of
        None \<Rightarrow> (Inr None, w)
      | Some row \<Rightarrow>
          if t_refresh_token row = [] then (Inr None, w)
          else
           (let data = [(''client_id'', client_id cfg),
                        (''client_secret'', client_secret cfg),
                        (''refresh_token'', t_refresh_token row),
                        (''grant_type'', ''refresh_token'')];
                w1 = w\<lparr>requests := requests w @ [TokenPost data]\<rparr>
            in case token_answer of
                 TransportError \<Rightarrow> (Inr None, w1)
               | Response status body \<Rightarrow>
                   if \<not> is_success status then (Inr None, w1)
                   else (case body of
                      None \<Rightarrow> (Inl JSONDecodeError, w1)
                    | Some tokens \<Rightarrow>
                       (case j_access_token tokens of
                          None \<Rightarrow> (Inl KeyError, w1)
                        | Some access_token \<Rightarrow>
                           (let expires_in = get_or (j_expires_in tokens) 3600
                            in case expiry_after now expires_in of
                                 Inl e \<Rightarrow> (Inl e, w1)
                               | Inr expires_at \<Rightarrow>
                                   (Inr (Some access_token),
                                    save_user_tokens_sync user_sub (t_user_email row)
                                      access_token (t_refresh_token row) expires_at w1))))))"

text \<open>\<open>now\<close> is the clock read by the expiry test, \<open>now_refresh\<close> the one read inside the
  refresh.\<close>

definition get_valid_access_token ::
  "config \<Rightarrow> time \<Rightarrow> time \<Rightarrow> token_json http_result \<Rightarrow> string \<Rightarrow> world
     \<Rightarrow> (exn + string option) \<times> world" where
  "get_valid_access_token cfg now now_refresh token_answer user_sub w =
     (case get_user_tokens_sync user_sub w of
        None \<Rightarrow> (Inr None, w)
      | Some row \<Rightarrow>
          (case datetime_add (t_token_expires_at row) (- minutes 5) of
             Inl e \<Rightarrow> (Inl e, w)
           | Inr threshold \<Rightarrow>
               if now \<ge> threshold
               then refresh_access_token cfg now_refresh token_answer user_sub w
               else (Inr (Some (t_access_token row)), w)))"

section \<open>Notions used to state the properties\<close>

text \<open>A session that no longer verifies in the store: its row is missing or
  revoked.\<close>

definition session_dead :: "string \<Rightarrow> world \<Rightarrow> bool" where
  "session_dead j w = (case sessions w j of None \<Rightarrow> True | Some row \<Rightarrow> s_revoked row)"

fun saves_jti :: "string \<Rightarrow> store_op \<Rightarrow> bool" where
  "saves_jti j (SaveSession j' _ _ _) = (j' = j)"
| "saves_jti j _ = False"

text \<open>The \<^verbatim>\<open>jti\<close> a credential carries, and whether a store call saves a session under
  that same \<^verbatim>\<open>jti\<close> (which takes a second draw of the same 32 random bytes).\<close>

fun credential_jti :: "credential \<Rightarrow> string option" where
  "credential_jti (Signed k a p) = jti p"
| "credential_jti (Malformed _) = None"

definition redraws_jti :: "credential \<Rightarrow> store_op \<Rightarrow> bool" where
  "redraws_jti token x = (case credential_jti token of None \<Rightarrow> False | Some j \<Rightarrow> saves_jti j x)"

text \<open>A concrete configuration and a session issued at time 0, for the examples.\<close>

definition demo_settings :: config where
  "demo_settings = settings ''k1'' ''cid'' ''csecret'' ''https://app/callback''"

definition demo_issue :: "credential \<times> world" where
  "demo_issue = create_session demo_settings 0 ''j1'' ''u1'' ''e@x.com'' empty_world"

text \<open>An exchange code that can no longer be redeemed because it is marked used.\<close>

definition code_spent :: "string \<Rightarrow> world \<Rightarrow> bool" where
  "code_spent c w = (case exchange_codes w c of None \<Rightarrow> False | Some r \<Rightarrow> c_used r)"

text \<open>A store call that tries to redeem code \<open>c\<close> at a clock reading not after \<open>t\<close>.\<close>

fun redeems_by :: "time \<Rightarrow> string \<Rightarrow> store_op \<Rightarrow> bool" where
  "redeems_by t c (UseExchangeCode t' c') = (c' = c \<and> t' \<le> t)"
| "redeems_by t c _ = False"

text \<open>A provider call that fails: no response, or a status outside 2xx.\<close>

definition http_failed :: "'a http_result \<Rightarrow> bool" where
  "http_failed answer =
     (case answer of TransportError \<Rightarrow> True | Response status _ \<Rightarrow> \<not> is_success status)"

text \<open>The store after \<open>create_exchange_code\<close> at time 0 for user \<^verbatim>\<open>u1\<close>, and for the empty
  user id; the store after a login of \<^verbatim>\<open>u1\<close> whose access token runs out at one hour;
  a pending authorization under the state \<^verbatim>\<open>s1\<close>.\<close>

definition demo_code_world :: world where
  "demo_code_world = empty_world\<lparr>exchange_codes :=
     [''c1'' \<mapsto> \<lparr>c_user_sub = ''u1'', c_expires_at = 300000000, c_used = False\<rparr>]\<rparr>"

definition anonymous_code_world :: world where
  "anonymous_code_world = empty_world\<lparr>exchange_codes :=
     [''c1'' \<mapsto> \<lparr>c_user_sub = [], c_expires_at = 300000000, c_used = False\<rparr>]\<rparr>"

definition demo_token_world :: world where
  "demo_token_world = save_user_tokens_sync ''u1'' ''e@x.com'' ''at0'' ''rt0'' (hours 1) empty_world"

definition demo_pending_world :: world where
  "demo_pending_world = empty_world\<lparr>pkce_store :=
     [''s1'' \<mapsto> \<lparr>code_verifier = ''v1'', code_challenge = ''ch1''\<rparr>]\<rparr>"

text \<open>The bytes 0 to 31 as a draw of \<^verbatim>\<open>secrets.token_bytes(32)\<close>, and a stand-in digest
  for the examples (the properties hold for every digest function).\<close>

definition demo_random32 :: "byte list" where
  "demo_random32 = [0, 1, 2, 3, 4, 5, 6, 7, 8, 9, 10, 11, 12, 13, 14, 15,
     16, 17, 18, 19, 20, 21, 22, 23, 24, 25, 26, 27, 28, 29, 30, 31]"

definition demo_digest :: "byte list \<Rightarrow> byte list" where
  "demo_digest bs = take 32 (rev bs @ replicate 32 0)"

section \<open>Sessions: revocation and expiry\<close>

lemma revoke_sync_sessions:
  "sessions (revoke_session_sync j w) j' =
     (if j' = j then map_option (\<lambda>row. row\<lparr>s_revoked := True\<rparr>) (sessions w j) else sessions w j')"
  by (auto simp add: revoke_session_sync_def split: option.splits)

lemma revoke_sync_others:
  "user_tokens (revoke_session_sync j w) = user_tokens w"
  "exchange_codes (revoke_session_sync j w) = exchange_codes w"
  "pkce_store (revoke_session_sync j w) = pkce_store w"
  "requests (revoke_session_sync j w) = requests w"
  by (simp_all add: revoke_session_sync_def split: option.splits)

lemma session_dead_revoke: "session_dead j (revoke_session_sync j w)"
  by (auto simp: session_dead_def revoke_session_sync_def split: option.splits)

lemma get_session_dead: "session_dead j w \<Longrightarrow> get_session_sync j w = None"
  by (auto simp: session_dead_def get_session_sync_def split: option.splits)

lemma mark_used_sessions: "sessions (mark_exchange_code_used c w) = sessions w"
  by (simp add: mark_exchange_code_used_def split: option.splits)

lemma use_code_sessions: "sessions (snd (use_exchange_code_sync t c w)) = sessions w"
  by (simp add: use_exchange_code_sync_def use_fetched_row_def mark_used_sessions split: option.splits)

lemma session_dead_op:
  "session_dead j w \<Longrightarrow> \<not> saves_jti j x \<Longrightarrow> session_dead j (apply_store_op x w)"
  by (cases x)
     (auto simp: session_dead_def save_session_sync_def revoke_session_sync_def
        save_user_tokens_sync_def save_exchange_code_sync_def use_code_sessions
        split: option.splits)

lemma session_dead_ops:
  "session_dead j w \<Longrightarrow> \<forall>x \<in> set xs. \<not> saves_jti j x \<Longrightarrow> session_dead j (apply_store_ops xs w)"
  by (induction xs arbitrary: w) (auto simp: session_dead_op)

lemma jwt_decode_Inr:
  "jwt_decode now token key algs = Inr p \<longleftrightarrow>
     (\<exists>a. token = Signed key a p \<and> a \<in> set algs
        \<and> (\<forall>i. iat p = Some i \<longrightarrow> seconds i \<le> now) \<and> (\<forall>e. exp p = Some e \<longrightarrow> now < seconds e))"
  by (cases token) (auto simp: jwt_decode_def immature_def expired_def split: option.splits)

lemma revoke_session_True:
  "revoke_session cfg now token w = (True, w') \<longleftrightarrow>
     (\<exists>p j. jwt_decode now token (secret_key cfg) [algorithm cfg] = Inr p \<and> jti p = Some j \<and> j \<noteq> []
        \<and> w' = revoke_session_sync j w)"
  by (auto simp: revoke_session_def split: sum.splits option.splits)

lemma verify_session_dead:
  assumes "token = Signed k a p" "jti p = Some j" "session_dead j w"
  shows "verify_session cfg t2 t3 token w = None"
  using assms
  by (auto simp: verify_session_def jwt_decode_def immature_def expired_def get_session_dead split: sum.splits option.splits jwt_error.splits)

text \<open>
  Claim C4. Once \<open>revoke_session\<close> has returned true for a credential, every later
  \<open>verify_session\<close> of that credential returns nothing, whatever the two clock readings
  are (so also while the embedded \<^verbatim>\<open>exp\<close> has not elapsed), and after any further calls
  of the store that do not save a session under the same \<^verbatim>\<open>jti\<close> again.
\<close>

theorem verify_session_after_revoke:
  assumes "revoke_session cfg t1 token w = (True, w1)"
      and "\<forall>x \<in> set later. \<not> redraws_jti token x"
  shows "verify_session cfg t2 t3 token (apply_store_ops later w1) = None"
proof -
  from assms(1) obtain p j where
    d: "jwt_decode t1 token (secret_key cfg) [algorithm cfg] = Inr p" and j: "jti p = Some j"
    and w1: "w1 = revoke_session_sync j w"
    unfolding revoke_session_True by blast
  from d have tok: "token = Signed (secret_key cfg) (algorithm cfg) p"
    by (auto simp: jwt_decode_Inr)
  from assms(2) tok j have "\<forall>x \<in> set later. \<not> saves_jti j x"
    by (simp add: redraws_jti_def)
  then have "session_dead j (apply_store_ops later w1)"
    unfolding w1 by (intro session_dead_ops session_dead_revoke)
  with tok j show ?thesis by (rule verify_session_dead[OF _ _])
qed

text \<open>
  Claim C5. For a credential whose signature verifies and whose session row exists with
  \<^verbatim>\<open>revoked\<close> false, \<open>verify_session\<close> returns nothing as soon as the clock is strictly
  after the persisted \<^verbatim>\<open>expires_at\<close>, whatever the credential's own \<^verbatim>\<open>exp\<close> says.
\<close>

theorem verify_session_store_expiry:
  assumes "token = Signed (secret_key cfg) (algorithm cfg) p"
      and "jti p = Some j"
      and "sessions w j = Some row"
      and "\<not> s_revoked row"
      and "s_expires_at row < now"
  shows "verify_session cfg now_jwt now token w = None"
  using assms
  by (auto simp: verify_session_def jwt_decode_def immature_def expired_def get_session_sync_def
      split: sum.splits option.splits jwt_error.splits)

lemma demo_issue_eq:
  "demo_issue =
     (Signed ''k1'' ''HS256'' \<lparr>jti = Some ''j1'', sub = ''u1'', email = ''e@x.com'', iat = Some 0, exp = Some 86400\<rparr>,
      empty_world\<lparr>sessions := [''j1'' \<mapsto>
        \<lparr>s_user_sub = ''u1'', s_user_email = ''e@x.com'', s_expires_at = 86400000000, s_revoked = False\<rparr>]\<rparr>)"
  by (simp add: demo_issue_def demo_settings_def settings_def create_session_def
      save_session_sync_def jwt_encode_def timegm_def hours_def minutes_def seconds_def
      empty_world_def)

text \<open>
  Claim C1 as written fails: \<^verbatim>\<open>jwt.decode\<close> checks \<^verbatim>\<open>exp\<close> by default and the handler
  catches the expiry error with the others. The credential issued at time 0 for 24 hours
  is revoked with result true one hour later, but 25 hours later the same call returns
  false and leaves the store as it was.
\<close>

theorem revoke_session_expired_counterexample:
  "fst (revoke_session demo_settings (hours 1) (fst demo_issue) (snd demo_issue)) = True \<and>
   revoke_session demo_settings (hours 25) (fst demo_issue) (snd demo_issue)
     = (False, snd demo_issue)"
  by (simp add: demo_issue_eq demo_settings_def settings_def revoke_session_def jwt_decode_def immature_def expired_def
      hours_def minutes_def seconds_def)

text \<open>
  Claim C1, amended. \<open>revoke_session\<close> returns true exactly when the credential is signed
  with the configured key and algorithm, its \<^verbatim>\<open>iat\<close> (if any) is not later than the
  decoder's clock, its \<^verbatim>\<open>exp\<close> (if any) has not elapsed at that clock, and it carries a
  non-empty \<^verbatim>\<open>jti\<close>; the store is never consulted for that decision. When it returns true
  the only change is \<^verbatim>\<open>revoked\<close> set on the session row of that \<^verbatim>\<open>jti\<close>, if there is one:
  every other session row, the other tables, the pending authorizations and the requests
  made are as before. When it returns false nothing at all has changed.
\<close>

theorem revoke_session_amended:
  "(fst (revoke_session cfg now token w) \<longleftrightarrow>
      (\<exists>p j. token = Signed (secret_key cfg) (algorithm cfg) p \<and> jti p = Some j \<and> j \<noteq> []
         \<and> (\<forall>i. iat p = Some i \<longrightarrow> seconds i \<le> now)
         \<and> (\<forall>e. exp p = Some e \<longrightarrow> now < seconds e))) \<and>
   (fst (revoke_session cfg now token w) \<longrightarrow>
      (\<exists>j. credential_jti token = Some j
         \<and> sessions (snd (revoke_session cfg now token w)) =
             (\<lambda>x. if x = j then map_option (\<lambda>row. row\<lparr>s_revoked := True\<rparr>) (sessions w j)
                  else sessions w x)
         \<and> user_tokens (snd (revoke_session cfg now token w)) = user_tokens w
         \<and> exchange_codes (snd (revoke_session cfg now token w)) = exchange_codes w
         \<and> pkce_store (snd (revoke_session cfg now token w)) = pkce_store w
         \<and> requests (snd (revoke_session cfg now token w)) = requests w)) \<and>
   (\<not> fst (revoke_session cfg now token w) \<longrightarrow> snd (revoke_session cfg now token w) = w)"
proof (cases "jwt_decode now token (secret_key cfg) [algorithm cfg]")
  case (Inl e)
  then have r: "revoke_session cfg now token w = (False, w)"
    by (simp add: revoke_session_def)
  have "\<not> (\<exists>p. jwt_decode now token (secret_key cfg) [algorithm cfg] = Inr p)"
    using Inl by simp
  then have "\<not> (\<exists>p j. token = Signed (secret_key cfg) (algorithm cfg) p \<and> jti p = Some j \<and> j \<noteq> []
         \<and> (\<forall>i. iat p = Some i \<longrightarrow> seconds i \<le> now)
         \<and> (\<forall>e. exp p = Some e \<longrightarrow> now < seconds e))"
    unfolding jwt_decode_Inr by auto
  with r show ?thesis by simp
next
  case (Inr p)
  then have tok: "token = Signed (secret_key cfg) (algorithm cfg) p"
    and born: "\<forall>i. iat p = Some i \<longrightarrow> seconds i \<le> now"
    and live: "\<forall>e. exp p = Some e \<longrightarrow> now < seconds e"
    by (auto simp: jwt_decode_Inr)
  show ?thesis
  proof (cases "jti p")
    case None
    with Inr have "revoke_session cfg now token w = (False, w)"
      by (simp add: revoke_session_def)
    with tok None show ?thesis by simp
  next
    case (Some j)
    show ?thesis
    proof (cases "j = []")
      case True
      with Inr Some have "revoke_session cfg now token w = (False, w)"
        by (simp add: revoke_session_def)
      with tok Some True show ?thesis by simp
    next
      case False
      with Inr Some have "revoke_session cfg now token w = (True, revoke_session_sync j w)"
        by (simp add: revoke_session_def)
      with tok Some False born live show ?thesis
        by (auto simp: revoke_sync_sessions revoke_sync_others fun_eq_iff)
    qed
  qed
qed

text \<open>The amended statement at the credential of the example, one hour and 25 hours
  after issue, and at a credential of the same key whose \<^verbatim>\<open>iat\<close> is two hours after the
  clock.\<close>

theorem revoke_session_amended_witness:
  "fst (revoke_session demo_settings (hours 1) (fst demo_issue) (snd demo_issue)) \<and>
   \<not> fst (revoke_session demo_settings (hours 25) (fst demo_issue) (snd demo_issue)) \<and>
   snd (revoke_session demo_settings (hours 25) (fst demo_issue) (snd demo_issue)) = snd demo_issue \<and>
   \<not> fst (revoke_session demo_settings (hours 1)
       (Signed ''k1'' ''HS256''
          \<lparr>jti = Some ''j1'', sub = ''u1'', email = ''e@x.com'', iat = Some 10800, exp = Some 86400\<rparr>)
       (snd demo_issue))"
proof -
  let ?early_born = "Signed ''k1'' ''HS256''
          \<lparr>jti = Some ''j1'', sub = ''u1'', email = ''e@x.com'', iat = Some 10800, exp = Some 86400\<rparr>"
  note early = revoke_session_amended [of demo_settings "hours 1" "fst demo_issue" "snd demo_issue"]
  note late = revoke_session_amended [of demo_settings "hours 25" "fst demo_issue" "snd demo_issue"]
  note unborn = revoke_session_amended [of demo_settings "hours 1" ?early_born "snd demo_issue"]
  have live: "\<exists>p j. fst demo_issue = Signed (secret_key demo_settings) (algorithm demo_settings) p
      \<and> jti p = Some j \<and> j \<noteq> [] \<and> (\<forall>i. iat p = Some i \<longrightarrow> seconds i \<le> hours 1)
      \<and> (\<forall>e. exp p = Some e \<longrightarrow> hours 1 < seconds e)"
    by (simp add: demo_issue_eq demo_settings_def settings_def hours_def minutes_def seconds_def)
  have gone: "\<not> (\<exists>p j. fst demo_issue = Signed (secret_key demo_settings) (algorithm demo_settings) p
      \<and> jti p = Some j \<and> j \<noteq> [] \<and> (\<forall>i. iat p = Some i \<longrightarrow> seconds i \<le> hours 25)
      \<and> (\<forall>e. exp p = Some e \<longrightarrow> hours 25 < seconds e))"
    by (simp add: demo_issue_eq demo_settings_def settings_def hours_def minutes_def seconds_def)
  have ahead: "\<not> (\<exists>p j. ?early_born = Signed (secret_key demo_settings) (algorithm demo_settings) p
      \<and> jti p = Some j \<and> j \<noteq> [] \<and> (\<forall>i. iat p = Some i \<longrightarrow> seconds i \<le> hours 1)
      \<and> (\<forall>e. exp p = Some e \<longrightarrow> hours 1 < seconds e))"
    by (simp add: demo_settings_def settings_def hours_def minutes_def seconds_def)
  from early live have 1: "fst (revoke_session demo_settings (hours 1) (fst demo_issue) (snd demo_issue))"
    by blast
  from late gone have 2: "\<not> fst (revoke_session demo_settings (hours 25) (fst demo_issue) (snd demo_issue))"
    by blast
  with late have 3: "snd (revoke_session demo_settings (hours 25) (fst demo_issue) (snd demo_issue)) = snd demo_issue"
    by blast
  from unborn ahead have 4: "\<not> fst (revoke_session demo_settings (hours 1) ?early_born (snd demo_issue))"
    by blast
  from 1 2 3 4 show ?thesis by blast
qed

text \<open>C4 at the example: without the revocation the credential verifies two hours after
  issue; after it, and after two further store calls, it does not.\<close>

theorem verify_session_after_revoke_witness:
  "revoke_session demo_settings (hours 1) (fst demo_issue) (snd demo_issue)
     = (True, revoke_session_sync ''j1'' (snd demo_issue)) \<and>
   \<not> redraws_jti (fst demo_issue) (RevokeSession ''j1'') \<and>
   \<not> redraws_jti (fst demo_issue) (SaveSession ''j2'' ''u2'' ''f@x.com'' (hours 30)) \<and>
   verify_session demo_settings (hours 2) (hours 2) (fst demo_issue) (snd demo_issue) \<noteq> None \<and>
   verify_session demo_settings (hours 2) (hours 2) (fst demo_issue)
     (apply_store_ops [RevokeSession ''j1'', SaveSession ''j2'' ''u2'' ''f@x.com'' (hours 30)]
        (revoke_session_sync ''j1'' (snd demo_issue))) = None"
proof -
  have r: "revoke_session demo_settings (hours 1) (fst demo_issue) (snd demo_issue)
     = (True, revoke_session_sync ''j1'' (snd demo_issue))"
    by (simp add: demo_issue_eq demo_settings_def settings_def revoke_session_def jwt_decode_def immature_def expired_def
      hours_def minutes_def seconds_def)
  have f: "\<forall>x \<in> set [RevokeSession ''j1'', SaveSession ''j2'' ''u2'' ''f@x.com'' (hours 30)].
      \<not> redraws_jti (fst demo_issue) x"
    by (simp add: demo_issue_eq redraws_jti_def)
  have v: "verify_session demo_settings (hours 2) (hours 2) (fst demo_issue) (snd demo_issue) \<noteq> None"
    by (simp add: demo_issue_eq demo_settings_def settings_def verify_session_def jwt_decode_def immature_def expired_def
      get_session_sync_def empty_world_def hours_def minutes_def seconds_def)
  from r f v verify_session_after_revoke [OF r f, of "hours 2" "hours 2"] show ?thesis
    by simp
qed

text \<open>C5 at the example, with a credential of the same \<^verbatim>\<open>jti\<close> that carries no
  \<^verbatim>\<open>exp\<close> at all: it verifies before the persisted expiry and not after it.\<close>

theorem verify_session_store_expiry_witness:
  "verify_session demo_settings (hours 2) (hours 2)
     (Signed ''k1'' ''HS256'' \<lparr>jti = Some ''j1'', sub = ''u1'', email = ''e@x.com'', iat = Some 0, exp = None\<rparr>)
     (snd demo_issue) \<noteq> None \<and>
   verify_session demo_settings (hours 2) (hours 25)
     (Signed ''k1'' ''HS256'' \<lparr>jti = Some ''j1'', sub = ''u1'', email = ''e@x.com'', iat = Some 0, exp = None\<rparr>)
     (snd demo_issue) = None"
proof -
  let ?p = "\<lparr>jti = Some ''j1'', sub = ''u1'', email = ''e@x.com'', iat = Some 0, exp = None\<rparr>"
  let ?row = "\<lparr>s_user_sub = ''u1'', s_user_email = ''e@x.com'', s_expires_at = 86400000000, s_revoked = False\<rparr>"
  have a: "Signed ''k1'' ''HS256'' ?p = Signed (secret_key demo_settings) (algorithm demo_settings) ?p"
    by (simp add: demo_settings_def settings_def)
  have b: "jti ?p = Some ''j1''" by simp
  have c: "sessions (snd demo_issue) ''j1'' = Some ?row"
    by (simp add: demo_issue_eq empty_world_def)
  have d: "\<not> s_revoked ?row" by simp
  have e: "s_expires_at ?row < hours 25" by (simp add: hours_def minutes_def seconds_def)
  have v: "verify_session demo_settings (hours 2) (hours 2) (Signed ''k1'' ''HS256'' ?p)
     (snd demo_issue) \<noteq> None"
    by (simp add: demo_issue_eq demo_settings_def settings_def verify_session_def jwt_decode_def immature_def expired_def
      get_session_sync_def empty_world_def hours_def minutes_def seconds_def)
  from v verify_session_store_expiry [OF a b c d e, of "hours 2"] show ?thesis by simp
qed

section \<open>Exchange codes\<close>

lemma use_exchange_code_unfold:
  "use_exchange_code_sync now code w =
     (case exchange_codes w code of
        None \<Rightarrow> (None, w)
      | Some r \<Rightarrow>
          if c_used r \<or> c_expires_at r < now then (None, w)
          else (Some (c_user_sub r),
                w\<lparr>exchange_codes := (exchange_codes w)(code \<mapsto> r\<lparr>c_used := True\<rparr>)\<rparr>))"
  by (simp add: use_exchange_code_sync_def use_fetched_row_def select_exchange_code_def
      mark_exchange_code_used_def split: option.splits)

lemma exchange_code_for_session_split:
  "exchange_code_for_session cfg now_use now_new new_jti code w =
     session_for_redeemed cfg now_new new_jti (fst (use_exchange_code_sync now_use code w))
       (snd (use_exchange_code_sync now_use code w))"
  by (simp add: exchange_code_for_session_def session_for_redeemed_def
      split: prod.splits option.splits)

lemma code_spent_op: "code_spent c w \<Longrightarrow> code_spent c (apply_store_op x w)"
  by (cases x)
     (auto simp: code_spent_def save_session_sync_def revoke_session_sync_def
        save_user_tokens_sync_def save_exchange_code_sync_def use_exchange_code_unfold
        split: option.splits)

lemma code_spent_ops: "code_spent c w \<Longrightarrow> code_spent c (apply_store_ops xs w)"
  by (induction xs arbitrary: w) (auto simp: code_spent_op)

lemma use_spent: "code_spent c w \<Longrightarrow> use_exchange_code_sync t c w = (None, w)"
  by (auto simp: code_spent_def use_exchange_code_unfold split: option.splits)

lemma redeem_spent: "code_spent c w \<Longrightarrow> exchange_code_for_session cfg t1 t2 j c w = (None, w)"
  by (simp add: exchange_code_for_session_def use_spent)

lemma row_kept_op:
  "exchange_codes w c = Some r \<Longrightarrow> \<not> redeems_by (c_expires_at r) c x
     \<Longrightarrow> exchange_codes (apply_store_op x w) c = Some r"
  by (cases x)
     (auto simp: save_session_sync_def revoke_session_sync_def
        save_user_tokens_sync_def save_exchange_code_sync_def use_exchange_code_unfold
        split: option.splits)

lemma row_kept_ops:
  "exchange_codes w c = Some r \<Longrightarrow> \<forall>x \<in> set xs. \<not> redeems_by (c_expires_at r) c x
     \<Longrightarrow> exchange_codes (apply_store_ops xs w) c = Some r"
  by (induction xs arbitrary: w) (auto simp: row_kept_op)

text \<open>
  Claim C10. For a code that is unknown, already used, or expired, the store's redemption
  returns nothing and leaves the whole store as it was. In particular a code that expired
  unredeemed keeps its row, with \<^verbatim>\<open>used\<close> false, through every later history of store
  calls in which the attempts to redeem it come after its expiry: no call marks it used
  or deletes it.
\<close>

theorem failed_redemption_writes_nothing:
  assumes "exchange_codes w code = None
           \<or> (\<exists>r. exchange_codes w code = Some r \<and> (c_used r \<or> c_expires_at r < now))"
  shows "use_exchange_code_sync now code w = (None, w) \<and>
         (\<forall>r later. exchange_codes w code = Some r \<and> \<not> c_used r \<and> c_expires_at r < now
              \<and> (\<forall>x \<in> set later. \<not> redeems_by (c_expires_at r) code x)
            \<longrightarrow> exchange_codes (apply_store_ops later w) code = Some r)"
  using assms by (auto simp: use_exchange_code_unfold row_kept_ops)

text \<open>C10 at the code of the example, six minutes after issue, and at an unknown code.\<close>

theorem failed_redemption_writes_nothing_witness:
  "use_exchange_code_sync (minutes 6) ''c1'' demo_code_world = (None, demo_code_world) \<and>
   exchange_codes
     (apply_store_ops [UseExchangeCode (minutes 7) ''c1'', SaveExchangeCode ''c1'' ''u2'' (minutes 20),
        UseExchangeCode (minutes 8) ''c1''] demo_code_world) ''c1''
     = Some \<lparr>c_user_sub = ''u1'', c_expires_at = 300000000, c_used = False\<rparr> \<and>
   use_exchange_code_sync (minutes 6) ''zz'' demo_code_world = (None, demo_code_world)"
proof -
  let ?r = "\<lparr>c_user_sub = ''u1'', c_expires_at = 300000000, c_used = False\<rparr>"
  let ?later = "[UseExchangeCode (minutes 7) ''c1'', SaveExchangeCode ''c1'' ''u2'' (minutes 20),
        UseExchangeCode (minutes 8) ''c1'']"
  have row: "exchange_codes demo_code_world ''c1'' = Some ?r"
    by (simp add: demo_code_world_def empty_world_def)
  have late: "c_expires_at ?r < minutes 6" by (simp add: minutes_def seconds_def)
  have h1: "exchange_codes demo_code_world ''c1'' = None
     \<or> (\<exists>r. exchange_codes demo_code_world ''c1'' = Some r \<and> (c_used r \<or> c_expires_at r < minutes 6))"
    using row late by simp
  have h2: "exchange_codes demo_code_world ''zz'' = None
     \<or> (\<exists>r. exchange_codes demo_code_world ''zz'' = Some r \<and> (c_used r \<or> c_expires_at r < minutes 6))"
    by (simp add: demo_code_world_def empty_world_def)
  have ops: "\<forall>x \<in> set ?later. \<not> redeems_by (c_expires_at ?r) ''c1'' x"
    by (simp add: minutes_def seconds_def)
  note thm1 = failed_redemption_writes_nothing [OF h1]
  from thm1
  have a: "use_exchange_code_sync (minutes 6) ''c1'' demo_code_world = (None, demo_code_world)"
    by (rule conjunct1)
  from thm1 have "exchange_codes demo_code_world ''c1'' = Some ?r \<and> \<not> c_used ?r
      \<and> c_expires_at ?r < minutes 6 \<and> (\<forall>x \<in> set ?later. \<not> redeems_by (c_expires_at ?r) ''c1'' x)
      \<longrightarrow> exchange_codes (apply_store_ops ?later demo_code_world) ''c1'' = Some ?r"
    by (elim conjE allE)
  with row late ops
  have b: "exchange_codes (apply_store_ops ?later demo_code_world) ''c1'' = Some ?r"
    by simp
  from failed_redemption_writes_nothing [OF h2]
  have c: "use_exchange_code_sync (minutes 6) ''zz'' demo_code_world = (None, demo_code_world)"
    by blast
  from a b c show ?thesis by blast
qed

lemma redeem_first:
  assumes "exchange_codes w code = Some r" "\<not> c_used r" "now_use \<le> c_expires_at r"
      "c_user_sub r \<noteq> []"
  shows "exchange_code_for_session cfg now_use now_new new_jti code w =
     (Some (Signed (secret_key cfg) (algorithm cfg)
        \<lparr>jti = Some new_jti, sub = c_user_sub r,
         email = (case user_tokens w (c_user_sub r) of None \<Rightarrow> [] | Some row \<Rightarrow> t_user_email row),
         iat = Some (timegm now_new), exp = Some (timegm (now_new + hours (duration_hours cfg)))\<rparr>),
      save_session_sync new_jti (c_user_sub r)
        (case user_tokens w (c_user_sub r) of None \<Rightarrow> [] | Some row \<Rightarrow> t_user_email row)
        (now_new + hours (duration_hours cfg))
        (w\<lparr>exchange_codes := (exchange_codes w)(code \<mapsto> r\<lparr>c_used := True\<rparr>)\<rparr>))"
  using assms
  by (simp add: exchange_code_for_session_def use_exchange_code_unfold create_session_def
      get_user_tokens_sync_def jwt_encode_def Let_def split: option.splits)

text \<open>
  Claim C3, amended. For a code whose row is unused and unexpired and whose user id is not
  empty, \<open>exchange_code_for_session\<close> returns a credential signed with the configured key
  that carries the drawn \<^verbatim>\<open>jti\<close> and the code's user id, saves the session and marks the
  code used; the credential verifies from the second of its issue until its expiry (the
  drawn \<^verbatim>\<open>jti\<close> being non-empty).
  After that, and after any further store calls, every redemption of the same code
  returns nothing and the code stays used.
\<close>

theorem redeem_once:
  assumes "exchange_codes w code = Some r" "\<not> c_used r" "now_use \<le> c_expires_at r"
      "c_user_sub r \<noteq> []"
  shows "\<exists>claims w1.
     exchange_code_for_session cfg now_use now_new new_jti code w =
       (Some (Signed (secret_key cfg) (algorithm cfg) claims), w1)
     \<and> jti claims = Some new_jti \<and> sub claims = c_user_sub r
     \<and> exp claims = Some (timegm (now_new + hours (duration_hours cfg)))
     \<and> (\<exists>e. sessions w1 new_jti =
           Some \<lparr>s_user_sub = c_user_sub r, s_user_email = e,
                 s_expires_at = now_new + hours (duration_hours cfg), s_revoked = False\<rparr>)
     \<and> exchange_codes w1 code = Some (r\<lparr>c_used := True\<rparr>)
     \<and> (\<forall>t_jwt t. new_jti \<noteq> [] \<and> seconds (timegm now_new) \<le> t_jwt
           \<and> t_jwt < seconds (timegm (now_new + hours (duration_hours cfg)))
           \<and> t \<le> now_new + hours (duration_hours cfg) \<longrightarrow>
           verify_session cfg t_jwt t (Signed (secret_key cfg) (algorithm cfg) claims) w1
             = Some claims)
     \<and> (\<forall>later t1 t2 j.
           exchange_code_for_session cfg t1 t2 j code (apply_store_ops later w1)
             = (None, apply_store_ops later w1)
           \<and> code_spent code (apply_store_ops later w1))"
proof -
  let ?e = "case user_tokens w (c_user_sub r) of None \<Rightarrow> [] | Some row \<Rightarrow> t_user_email row"
  let ?claims = "\<lparr>jti = Some new_jti, sub = c_user_sub r, email = ?e,
         iat = Some (timegm now_new), exp = Some (timegm (now_new + hours (duration_hours cfg)))\<rparr>"
  let ?w1 = "save_session_sync new_jti (c_user_sub r) ?e (now_new + hours (duration_hours cfg))
        (w\<lparr>exchange_codes := (exchange_codes w)(code \<mapsto> r\<lparr>c_used := True\<rparr>)\<rparr>)"
  have first: "exchange_code_for_session cfg now_use now_new new_jti code w
      = (Some (Signed (secret_key cfg) (algorithm cfg) ?claims), ?w1)"
    by (rule redeem_first [OF assms])
  have row: "exchange_codes ?w1 code = Some (r\<lparr>c_used := True\<rparr>)"
    by (simp add: save_session_sync_def)
  have sess: "sessions ?w1 new_jti =
           Some \<lparr>s_user_sub = c_user_sub r, s_user_email = ?e,
                 s_expires_at = now_new + hours (duration_hours cfg), s_revoked = False\<rparr>"
    by (simp add: save_session_sync_def)
  have valid: "\<forall>t_jwt t. new_jti \<noteq> [] \<and> seconds (timegm now_new) \<le> t_jwt
           \<and> t_jwt < seconds (timegm (now_new + hours (duration_hours cfg)))
           \<and> t \<le> now_new + hours (duration_hours cfg) \<longrightarrow>
           verify_session cfg t_jwt t (Signed (secret_key cfg) (algorithm cfg) ?claims) ?w1
             = Some ?claims"
    by (simp add: verify_session_def jwt_decode_def immature_def expired_def get_session_sync_def save_session_sync_def)
  from row have spent: "code_spent code ?w1" by (simp add: code_spent_def)
  have later: "\<forall>later t1 t2 j.
           exchange_code_for_session cfg t1 t2 j code (apply_store_ops later ?w1)
             = (None, apply_store_ops later ?w1)
           \<and> code_spent code (apply_store_ops later ?w1)"
    using spent by (simp add: code_spent_ops redeem_spent)
  from first row sess valid later show ?thesis
    by (intro exI [of _ ?claims] exI [of _ ?w1]) simp
qed

lemma demo_code_issue:
  "create_exchange_code 0 ''c1'' ''u1'' empty_world = Inr (''c1'', demo_code_world)"
  by (simp add: create_exchange_code_def save_exchange_code_sync_def demo_code_world_def
      empty_world_def minutes_def seconds_def)

text \<open>The amended C3 at the code issued by \<open>create_exchange_code\<close> for \<^verbatim>\<open>u1\<close>.\<close>

theorem redeem_once_witness:
  "create_exchange_code 0 ''c1'' ''u1'' empty_world = Inr (''c1'', demo_code_world) \<and>
   (\<exists>claims w1.
      exchange_code_for_session demo_settings (minutes 1) (minutes 1) ''j1'' ''c1'' demo_code_world
        = (Some (Signed ''k1'' ''HS256'' claims), w1)
      \<and> sub claims = ''u1''
      \<and> exchange_code_for_session demo_settings (minutes 2) (minutes 2) ''j2'' ''c1'' w1 = (None, w1))"
proof -
  let ?r = "\<lparr>c_user_sub = ''u1'', c_expires_at = 300000000, c_used = False\<rparr>"
  have row: "exchange_codes demo_code_world ''c1'' = Some ?r"
    by (simp add: demo_code_world_def empty_world_def)
  have unused: "\<not> c_used ?r" by simp
  have live: "minutes 1 \<le> c_expires_at ?r" by (simp add: minutes_def seconds_def)
  have named: "c_user_sub ?r \<noteq> []" by simp
  from redeem_once [OF row unused live named, of demo_settings "minutes 1" "''j1''"]
  obtain claims w1 where
    first: "exchange_code_for_session demo_settings (minutes 1) (minutes 1) ''j1'' ''c1'' demo_code_world
        = (Some (Signed (secret_key demo_settings) (algorithm demo_settings) claims), w1)"
    and sub: "sub claims = c_user_sub ?r"
    and later: "\<forall>later t1 t2 j.
           exchange_code_for_session demo_settings t1 t2 j ''c1'' (apply_store_ops later w1)
             = (None, apply_store_ops later w1)
           \<and> code_spent ''c1'' (apply_store_ops later w1)"
    by blast
  from later have again:
    "exchange_code_for_session demo_settings (minutes 2) (minutes 2) ''j2'' ''c1'' (apply_store_ops [] w1)
       = (None, apply_store_ops [] w1)"
    by blast
  from first sub again demo_code_issue show ?thesis
    by (simp add: demo_settings_def settings_def)
qed

text \<open>
  Claim C3 as written fails for the empty user id: \<^verbatim>\<open>if not user_sub\<close> is true for
  \<^verbatim>\<open>""\<close> too. The code issued for it is unused and unexpired, yet its first redemption
  returns nothing, and marks the code used.
\<close>

theorem redeem_empty_sub_counterexample:
  "create_exchange_code 0 ''c1'' [] empty_world = Inr (''c1'', anonymous_code_world) \<and>
   exchange_code_for_session demo_settings (minutes 1) (minutes 1) ''j1'' ''c1'' anonymous_code_world
     = (None, anonymous_code_world\<lparr>exchange_codes :=
          [''c1'' \<mapsto> \<lparr>c_user_sub = [], c_expires_at = 300000000, c_used = True\<rparr>]\<rparr>)"
  by (simp add: create_exchange_code_def save_exchange_code_sync_def anonymous_code_world_def
      empty_world_def minutes_def seconds_def exchange_code_for_session_def
      use_exchange_code_unfold)

text \<open>The empty user id is an input the program can receive: the login takes the
  \<^verbatim>\<open>sub\<close> of the provider's userinfo answer as it is, and the callback passes it on to
  \<open>create_exchange_code\<close>.\<close>

lemma login_hands_on_empty_sub:
  "fst (exchange_code demo_settings 0
          (Response 200 (Some \<lparr>j_access_token = Some ''at1'', j_refresh_token = None,
                                j_expires_in = None\<rparr>))
          (Response 200 (Some \<lparr>u_sub = Some [], u_email = None, u_name = None\<rparr>))
          ''abc'' ''s1'' demo_pending_world)
     = Inr \<lparr>r_user_sub = [], r_user_email = [], r_user_name = [],
            r_tokens = \<lparr>j_access_token = Some ''at1'', j_refresh_token = None,
                         j_expires_in = None\<rparr>\<rparr>"
  by (simp add: exchange_code_def get_userinfo_def demo_pending_world_def empty_world_def
      is_success_def get_or_def expiry_after_def timedelta_seconds_def datetime_add_def
      representable_def datetime_min_def datetime_max_def seconds_def Let_def)

lemma redeem_in_turn_spent:
  "code_spent code w \<Longrightarrow> redeem_in_turn cfg calls code w = (replicate (length calls) None, w)"
  by (induction calls arbitrary: w) (auto simp: redeem_spent)

text \<open>One caller running its three steps with nobody in between is
  \<open>exchange_code_for_session\<close>.\<close>

lemma caller_alone:
  "run_schedule cfg [(t0, 0), (now_use, 0), (now_new, 0)] [Calling code new_jti] w =
     ([Finished (fst (exchange_code_for_session cfg now_use now_new new_jti code w))],
      snd (exchange_code_for_session cfg now_use now_new new_jti code w))"
  by (simp add: exchange_code_for_session_split use_exchange_code_sync_def split: prod.splits)

text \<open>
  Claim C2, amended. Redemption is a read and a later, separate write. When the calls for
  an unused, unexpired code of a non-empty user id do not overlap, exactly the first
  returns a credential and all the others return nothing.
\<close>

theorem redeem_in_turn_once:
  assumes "exchange_codes w code = Some r" "\<not> c_used r" "now_use \<le> c_expires_at r"
      "c_user_sub r \<noteq> []"
  shows "\<exists>token w'.
     redeem_in_turn cfg ((now_use, now_new, new_jti) # calls) code w
       = (Some token # replicate (length calls) None, w')
     \<and> code_spent code w'"
proof -
  let ?e = "case user_tokens w (c_user_sub r) of None \<Rightarrow> [] | Some row \<Rightarrow> t_user_email row"
  let ?w1 = "save_session_sync new_jti (c_user_sub r) ?e (now_new + hours (duration_hours cfg))
        (w\<lparr>exchange_codes := (exchange_codes w)(code \<mapsto> r\<lparr>c_used := True\<rparr>)\<rparr>)"
  have spent: "code_spent code ?w1"
    by (simp add: code_spent_def save_session_sync_def)
  then have rest: "redeem_in_turn cfg calls code ?w1 = (replicate (length calls) None, ?w1)"
    by (rule redeem_in_turn_spent)
  show ?thesis
    using redeem_first [OF assms, of cfg now_new new_jti] rest spent by simp
qed

text \<open>The amended C2 at three calls in turn for the code of the example.\<close>

theorem redeem_in_turn_once_witness:
  "\<exists>token w'.
     redeem_in_turn demo_settings
       [(minutes 1, minutes 1, ''j1''), (minutes 1, minutes 1, ''j2''), (minutes 2, minutes 2, ''j3'')]
       ''c1'' demo_code_world
       = ([Some token, None, None], w')"
proof -
  let ?r = "\<lparr>c_user_sub = ''u1'', c_expires_at = 300000000, c_used = False\<rparr>"
  have row: "exchange_codes demo_code_world ''c1'' = Some ?r"
    by (simp add: demo_code_world_def empty_world_def)
  have unused: "\<not> c_used ?r" by simp
  have live: "minutes 1 \<le> c_expires_at ?r" by (simp add: minutes_def seconds_def)
  have named: "c_user_sub ?r \<noteq> []" by simp
  from redeem_in_turn_once [OF row unused live named,
      of demo_settings "minutes 1" "''j1''"
         "[(minutes 1, minutes 1, ''j2''), (minutes 2, minutes 2, ''j3'')]"]
  show ?thesis by auto
qed

text \<open>
  Claim C2 as written fails: the check and the mark are two statements. Two callers
  redeem the freshly issued code; both run their \<^verbatim>\<open>SELECT\<close> before either runs its
  \<^verbatim>\<open>UPDATE\<close>, both find the code unused, and both return a credential.
\<close>

theorem concurrent_redeemers_counterexample:
  "create_exchange_code 0 ''c1'' ''u1'' empty_world = Inr (''c1'', demo_code_world) \<and>
   fst (run_schedule demo_settings
          [(minutes 1, 0), (minutes 1, 1), (minutes 1, 0), (minutes 1, 1), (minutes 1, 0), (minutes 1, 1)]
          [Calling ''c1'' ''j1'', Calling ''c1'' ''j2''] demo_code_world)
     = [Finished (Some (Signed ''k1'' ''HS256''
          \<lparr>jti = Some ''j1'', sub = ''u1'', email = [], iat = Some 60, exp = Some 86460\<rparr>)),
        Finished (Some (Signed ''k1'' ''HS256''
          \<lparr>jti = Some ''j2'', sub = ''u1'', email = [], iat = Some 60, exp = Some 86460\<rparr>))]"
  by (simp add: demo_code_issue)
     (simp add: demo_code_world_def empty_world_def demo_settings_def settings_def
      select_exchange_code_def use_fetched_row_def mark_exchange_code_used_def
      session_for_redeemed_def get_user_tokens_sync_def create_session_def
      save_session_sync_def jwt_encode_def timegm_def hours_def minutes_def seconds_def)

section \<open>Access tokens\<close>

lemma refresh_absent:
  "user_tokens w user_sub = None \<Longrightarrow> refresh_access_token cfg now answer user_sub w = (Inr None, w)"
  by (simp add: refresh_access_token_def get_user_tokens_sync_def)

lemma refresh_no_refresh_token:
  "user_tokens w user_sub = Some row \<Longrightarrow> t_refresh_token row = []
     \<Longrightarrow> refresh_access_token cfg now answer user_sub w = (Inr None, w)"
  by (simp add: refresh_access_token_def get_user_tokens_sync_def)

lemma refresh_failed:
  assumes "user_tokens w user_sub = Some row" "t_refresh_token row \<noteq> []" "http_failed answer"
  shows "refresh_access_token cfg now answer user_sub w =
     (Inr None, w\<lparr>requests := requests w @ [TokenPost
        [(''client_id'', client_id cfg), (''client_secret'', client_secret cfg),
         (''refresh_token'', t_refresh_token row), (''grant_type'', ''refresh_token'')]]\<rparr>)"
  using assms
  by (cases answer)
     (simp_all add: refresh_access_token_def get_user_tokens_sync_def http_failed_def Let_def)

lemma expiry_after_Inr:
  "expiry_after now n = Inr t \<longleftrightarrow>
     - 999999999 \<le> n div 86400 \<and> n div 86400 \<le> 999999999
     \<and> representable (now + seconds n) \<and> t = now + seconds n"
  by (auto simp: expiry_after_def timedelta_seconds_def datetime_add_def)

lemma refresh_succeeded:
  assumes "user_tokens w user_sub = Some row" "t_refresh_token row \<noteq> []"
    "answer = Response status (Some tokens)" "is_success status" "j_access_token tokens = Some a"
    "expiry_after now (get_or (j_expires_in tokens) 3600) = Inr expires_at"
  shows "refresh_access_token cfg now answer user_sub w =
     (Inr (Some a),
      save_user_tokens_sync user_sub (t_user_email row) a (t_refresh_token row) expires_at
        (w\<lparr>requests := requests w @ [TokenPost
           [(''client_id'', client_id cfg), (''client_secret'', client_secret cfg),
            (''refresh_token'', t_refresh_token row), (''grant_type'', ''refresh_token'')]]\<rparr>))"
  using assms
  by (simp add: refresh_access_token_def get_user_tokens_sync_def Let_def)

lemma get_valid_early:
  assumes "user_tokens w user_sub = Some row"
    "representable (t_token_expires_at row - minutes 5)" "now < t_token_expires_at row - minutes 5"
  shows "get_valid_access_token cfg now now_refresh answer user_sub w
        = (Inr (Some (t_access_token row)), w)"
  using assms
  by (simp add: get_valid_access_token_def get_user_tokens_sync_def datetime_add_def)

lemma get_valid_due:
  assumes "user_tokens w user_sub = Some row"
    "representable (t_token_expires_at row - minutes 5)" "now \<ge> t_token_expires_at row - minutes 5"
  shows "get_valid_access_token cfg now now_refresh answer user_sub w
        = refresh_access_token cfg now_refresh answer user_sub w"
  using assms
  by (simp add: get_valid_access_token_def get_user_tokens_sync_def datetime_add_def)

lemma demo_token_row:
  "user_tokens demo_token_world ''u1'' =
     Some \<lparr>t_user_email = ''e@x.com'', t_access_token = ''at0'', t_refresh_token = ''rt0'',
           t_token_expires_at = 3600000000\<rparr>"
  by (simp add: demo_token_world_def save_user_tokens_sync_def empty_world_def
      hours_def minutes_def seconds_def)

text \<open>
  Claim C6 as written fails in its refresh branch: the result there is the result of
  \<open>refresh_access_token\<close>, which is not always the refreshed token or nothing. With the
  stored token five minutes from its expiry and a 200 answer that has no
  \<^verbatim>\<open>access_token\<close>, \<open>get_valid_access_token\<close> raises \<^verbatim>\<open>KeyError\<close>.
\<close>

theorem get_valid_access_token_raises_counterexample:
  "fst (get_valid_access_token demo_settings (minutes 55) (minutes 56)
          (Response 200 (Some \<lparr>j_access_token = None, j_refresh_token = None, j_expires_in = None\<rparr>))
          ''u1'' demo_token_world) = Inl KeyError"
  by (simp add: get_valid_access_token_def refresh_access_token_def get_user_tokens_sync_def
      demo_token_row datetime_add_def representable_def datetime_min_def datetime_max_def
      is_success_def minutes_def seconds_def Let_def)

text \<open>
  Claim C6, amended. Without a stored record \<open>get_valid_access_token\<close> returns nothing.
  With a record whose \<^verbatim>\<open>token_expires_at\<close> minus five minutes is a representable time, it
  returns the stored access token and leaves the store and the network alone while the
  clock is before that moment; from that moment on its result is exactly the result of
  \<open>refresh_access_token\<close>: the refreshed token, saved with the old refresh token, when the
  provider answers 2xx with an \<^verbatim>\<open>access_token\<close> and an \<^verbatim>\<open>expires_in\<close> that gives a
  representable expiry, and nothing when there is no refresh token or the call fails in
  transport or by its status.
\<close>

theorem get_valid_access_token_amended:
  "(user_tokens w user_sub = None \<longrightarrow>
      get_valid_access_token cfg now now_refresh answer user_sub w = (Inr None, w)) \<and>
   (\<forall>row. user_tokens w user_sub = Some row
      \<and> representable (t_token_expires_at row - minutes 5)
      \<and> now < t_token_expires_at row - minutes 5 \<longrightarrow>
      get_valid_access_token cfg now now_refresh answer user_sub w
        = (Inr (Some (t_access_token row)), w)) \<and>
   (\<forall>row. user_tokens w user_sub = Some row
      \<and> representable (t_token_expires_at row - minutes 5)
      \<and> now \<ge> t_token_expires_at row - minutes 5 \<longrightarrow>
      get_valid_access_token cfg now now_refresh answer user_sub w
        = refresh_access_token cfg now_refresh answer user_sub w) \<and>
   (\<forall>row status tokens a expires_at.
      user_tokens w user_sub = Some row
      \<and> representable (t_token_expires_at row - minutes 5)
      \<and> now \<ge> t_token_expires_at row - minutes 5
      \<and> t_refresh_token row \<noteq> [] \<and> answer = Response status (Some tokens) \<and> is_success status
      \<and> j_access_token tokens = Some a
      \<and> expiry_after now_refresh (get_or (j_expires_in tokens) 3600) = Inr expires_at \<longrightarrow>
      fst (get_valid_access_token cfg now now_refresh answer user_sub w) = Inr (Some a)
      \<and> expires_at = now_refresh + seconds (get_or (j_expires_in tokens) 3600)
      \<and> user_tokens (snd (get_valid_access_token cfg now now_refresh answer user_sub w)) user_sub
          = Some \<lparr>t_user_email = t_user_email row, t_access_token = a,
                  t_refresh_token = t_refresh_token row, t_token_expires_at = expires_at\<rparr>) \<and>
   (\<forall>row. user_tokens w user_sub = Some row
      \<and> representable (t_token_expires_at row - minutes 5)
      \<and> now \<ge> t_token_expires_at row - minutes 5
      \<and> (t_refresh_token row = [] \<or> http_failed answer) \<longrightarrow>
      fst (get_valid_access_token cfg now now_refresh answer user_sub w) = Inr None
      \<and> user_tokens (snd (get_valid_access_token cfg now now_refresh answer user_sub w))
          = user_tokens w)"
proof (intro conjI allI impI)
  assume "user_tokens w user_sub = None"
  then show "get_valid_access_token cfg now now_refresh answer user_sub w = (Inr None, w)"
    by (simp add: get_valid_access_token_def get_user_tokens_sync_def)
next
  fix row
  assume "user_tokens w user_sub = Some row
      \<and> representable (t_token_expires_at row - minutes 5)
      \<and> now < t_token_expires_at row - minutes 5"
  then show "get_valid_access_token cfg now now_refresh answer user_sub w
        = (Inr (Some (t_access_token row)), w)"
    by (simp add: get_valid_early)
next
  fix row
  assume "user_tokens w user_sub = Some row
      \<and> representable (t_token_expires_at row - minutes 5)
      \<and> now \<ge> t_token_expires_at row - minutes 5"
  then show "get_valid_access_token cfg now now_refresh answer user_sub w
        = refresh_access_token cfg now_refresh answer user_sub w"
    by (simp add: get_valid_due)
next
  fix row status tokens a expires_at
  assume h: "user_tokens w user_sub = Some row
      \<and> representable (t_token_expires_at row - minutes 5)
      \<and> now \<ge> t_token_expires_at row - minutes 5
      \<and> t_refresh_token row \<noteq> [] \<and> answer = Response status (Some tokens) \<and> is_success status
      \<and> j_access_token tokens = Some a
      \<and> expiry_after now_refresh (get_or (j_expires_in tokens) 3600) = Inr expires_at"
  then have h1: "user_tokens w user_sub = Some row" and h2: "t_refresh_token row \<noteq> []"
    and h3: "answer = Response status (Some tokens)" and h4: "is_success status"
    and h5: "j_access_token tokens = Some a"
    and h6: "expiry_after now_refresh (get_or (j_expires_in tokens) 3600) = Inr expires_at"
    and h7: "representable (t_token_expires_at row - minutes 5)"
    and h8: "now \<ge> t_token_expires_at row - minutes 5"
    by blast+
  have d: "get_valid_access_token cfg now now_refresh answer user_sub w
        = refresh_access_token cfg now_refresh answer user_sub w"
    by (rule get_valid_due [OF h1 h7 h8])
  note r = refresh_succeeded [OF h1 h2 h3 h4 h5 h6, of cfg]
  show "fst (get_valid_access_token cfg now now_refresh answer user_sub w) = Inr (Some a)"
    by (simp add: d r)
  show "expires_at = now_refresh + seconds (get_or (j_expires_in tokens) 3600)"
    using h6 by (simp add: expiry_after_Inr)
  show "user_tokens (snd (get_valid_access_token cfg now now_refresh answer user_sub w)) user_sub
          = Some \<lparr>t_user_email = t_user_email row, t_access_token = a,
                  t_refresh_token = t_refresh_token row, t_token_expires_at = expires_at\<rparr>"
    by (simp add: d r save_user_tokens_sync_def)
next
  fix row
  assume h: "user_tokens w user_sub = Some row
      \<and> representable (t_token_expires_at row - minutes 5)
      \<and> now \<ge> t_token_expires_at row - minutes 5
      \<and> (t_refresh_token row = [] \<or> http_failed answer)"
  then have d: "get_valid_access_token cfg now now_refresh answer user_sub w
        = refresh_access_token cfg now_refresh answer user_sub w"
    by (simp add: get_valid_due)
  show "fst (get_valid_access_token cfg now now_refresh answer user_sub w) = Inr None"
    using h by (cases "t_refresh_token row = []")
      (auto simp: d refresh_no_refresh_token refresh_failed)
  show "user_tokens (snd (get_valid_access_token cfg now now_refresh answer user_sub w))
          = user_tokens w"
    using h by (cases "t_refresh_token row = []")
      (auto simp: d refresh_no_refresh_token refresh_failed)
qed

text \<open>
  Claim C7 as written fails: the handler catches \<^verbatim>\<open>httpx.HTTPError\<close> only. A 200 answer
  whose JSON has no \<^verbatim>\<open>access_token\<close> raises \<^verbatim>\<open>KeyError\<close>, and one whose body is not JSON
  raises the decoding error.
\<close>

theorem refresh_malformed_answer_counterexample:
  "fst (refresh_access_token demo_settings (hours 2)
          (Response 200 (Some \<lparr>j_access_token = None, j_refresh_token = None, j_expires_in = None\<rparr>))
          ''u1'' demo_token_world) = Inl KeyError \<and>
   fst (refresh_access_token demo_settings (hours 2) (Response 200 None) ''u1'' demo_token_world)
     = Inl JSONDecodeError"
  by (simp add: refresh_access_token_def get_user_tokens_sync_def demo_token_row is_success_def
      Let_def)

text \<open>
  Claim C7, amended. \<open>refresh_access_token\<close> returns nothing, with no network call and no
  write, when the record is absent or its refresh token is empty; when the call to the
  token endpoint fails in transport or with a status outside 2xx it returns nothing, after
  that one call and without a write to the record.
\<close>

theorem refresh_access_token_amended:
  "(user_tokens w user_sub = None \<longrightarrow>
      refresh_access_token cfg now answer user_sub w = (Inr None, w)) \<and>
   (\<forall>row. user_tokens w user_sub = Some row \<and> t_refresh_token row = [] \<longrightarrow>
      refresh_access_token cfg now answer user_sub w = (Inr None, w)) \<and>
   (\<forall>row. user_tokens w user_sub = Some row \<and> t_refresh_token row \<noteq> [] \<and> http_failed answer \<longrightarrow>
      fst (refresh_access_token cfg now answer user_sub w) = Inr None
      \<and> user_tokens (snd (refresh_access_token cfg now answer user_sub w)) = user_tokens w
      \<and> requests (snd (refresh_access_token cfg now answer user_sub w)) =
          requests w @ [TokenPost
            [(''client_id'', client_id cfg), (''client_secret'', client_secret cfg),
             (''refresh_token'', t_refresh_token row), (''grant_type'', ''refresh_token'')]])"
  by (auto simp: refresh_absent refresh_no_refresh_token refresh_failed)

text \<open>The amended C6 at the record of the example, whose token runs out at one hour: at
  54 and at 55 minutes, and for an unknown user.\<close>

theorem get_valid_access_token_amended_witness:
  "get_valid_access_token demo_settings (minutes 54) (minutes 54) TransportError ''u1''
     demo_token_world = (Inr (Some ''at0''), demo_token_world) \<and>
   fst (get_valid_access_token demo_settings (minutes 55) (minutes 56)
     (Response 200 (Some \<lparr>j_access_token = Some ''at1'', j_refresh_token = None,
                            j_expires_in = Some 1800\<rparr>)) ''u1'' demo_token_world)
     = Inr (Some ''at1'') \<and>
   fst (get_valid_access_token demo_settings (minutes 55) (minutes 56) (Response 503 None) ''u1''
     demo_token_world) = Inr None \<and>
   get_valid_access_token demo_settings (minutes 55) (minutes 56) TransportError ''nobody''
     demo_token_world = (Inr None, demo_token_world)"
proof -
  let ?row = "\<lparr>t_user_email = ''e@x.com'', t_access_token = ''at0'', t_refresh_token = ''rt0'',
           t_token_expires_at = 3600000000\<rparr>"
  let ?json = "\<lparr>j_access_token = Some ''at1'', j_refresh_token = None, j_expires_in = Some 1800\<rparr>"
  let ?ok = "Response 200 (Some ?json)"
  have absent: "user_tokens demo_token_world ''nobody'' = None"
    by (simp add: demo_token_world_def save_user_tokens_sync_def empty_world_def)
  have inside: "representable (t_token_expires_at ?row - minutes 5)"
    by (simp add: representable_def datetime_min_def datetime_max_def minutes_def seconds_def)
  have early: "(minutes 54 :: time) < t_token_expires_at ?row - minutes 5"
    by (simp add: minutes_def seconds_def)
  have due: "(minutes 55 :: time) \<ge> t_token_expires_at ?row - minutes 5"
    by (simp add: minutes_def seconds_def)
  have fresh: "expiry_after (minutes 56) (get_or (j_expires_in ?json) 3600) = Inr 5160000000"
    by (simp add: expiry_after_def timedelta_seconds_def datetime_add_def representable_def
        datetime_min_def datetime_max_def get_or_def minutes_def seconds_def)
  note e = get_valid_access_token_amended [of demo_token_world "''u1''" demo_settings "minutes 54"
      "minutes 54" TransportError]
  note d = get_valid_access_token_amended [of demo_token_world "''u1''" demo_settings "minutes 55"
      "minutes 56" ?ok]
  note f = get_valid_access_token_amended [of demo_token_world "''u1''" demo_settings "minutes 55"
      "minutes 56" "Response 503 None"]
  note n = get_valid_access_token_amended [of demo_token_world "''nobody''" demo_settings
      "minutes 55" "minutes 56" TransportError]
  from e demo_token_row inside early
  have 1: "get_valid_access_token demo_settings (minutes 54) (minutes 54) TransportError ''u1''
     demo_token_world = (Inr (Some (t_access_token ?row)), demo_token_world)"
    by blast
  have ok: "user_tokens demo_token_world ''u1'' = Some ?row
      \<and> representable (t_token_expires_at ?row - minutes 5)
      \<and> minutes 55 \<ge> t_token_expires_at ?row - minutes 5
      \<and> t_refresh_token ?row \<noteq> [] \<and> ?ok = Response 200 (Some ?json) \<and> is_success 200
      \<and> j_access_token ?json = Some ''at1''
      \<and> expiry_after (minutes 56) (get_or (j_expires_in ?json) 3600) = Inr 5160000000"
    using demo_token_row due inside fresh by (simp add: is_success_def)
  from d ok
  have 2: "fst (get_valid_access_token demo_settings (minutes 55) (minutes 56) ?ok ''u1''
     demo_token_world) = Inr (Some ''at1'')"
    by blast
  have bad: "user_tokens demo_token_world ''u1'' = Some ?row
      \<and> representable (t_token_expires_at ?row - minutes 5)
      \<and> minutes 55 \<ge> t_token_expires_at ?row - minutes 5
      \<and> (t_refresh_token ?row = [] \<or> http_failed (Response 503 None :: token_json http_result))"
    using demo_token_row due inside by (simp add: http_failed_def is_success_def)
  from f bad
  have 3: "fst (get_valid_access_token demo_settings (minutes 55) (minutes 56) (Response 503 None)
     ''u1'' demo_token_world) = Inr None"
    by blast
  from n absent
  have 4: "get_valid_access_token demo_settings (minutes 55) (minutes 56) TransportError ''nobody''
     demo_token_world = (Inr None, demo_token_world)"
    by blast
  from 1 2 3 4 show ?thesis by simp
qed

text \<open>The amended C7 at the record of the example.\<close>

theorem refresh_access_token_amended_witness:
  "refresh_access_token demo_settings (hours 2) TransportError ''nobody'' demo_token_world
     = (Inr None, demo_token_world) \<and>
   fst (refresh_access_token demo_settings (hours 2) TransportError ''u1'' demo_token_world)
     = Inr None \<and>
   fst (refresh_access_token demo_settings (hours 2) (Response 401 None) ''u1'' demo_token_world)
     = Inr None \<and>
   user_tokens (snd (refresh_access_token demo_settings (hours 2) (Response 401 None) ''u1''
     demo_token_world)) = user_tokens demo_token_world"
proof -
  let ?row = "\<lparr>t_user_email = ''e@x.com'', t_access_token = ''at0'', t_refresh_token = ''rt0'',
           t_token_expires_at = 3600000000\<rparr>"
  have absent: "user_tokens demo_token_world ''nobody'' = None"
    by (simp add: demo_token_world_def save_user_tokens_sync_def empty_world_def)
  have down: "user_tokens demo_token_world ''u1'' = Some ?row \<and> t_refresh_token ?row \<noteq> []
      \<and> http_failed (TransportError :: token_json http_result)"
    using demo_token_row by (simp add: http_failed_def)
  have denied: "user_tokens demo_token_world ''u1'' = Some ?row \<and> t_refresh_token ?row \<noteq> []
      \<and> http_failed (Response 401 None :: token_json http_result)"
    using demo_token_row by (simp add: http_failed_def is_success_def)
  from refresh_access_token_amended [of demo_token_world "''nobody''" demo_settings "hours 2"
      TransportError] absent
  have 1: "refresh_access_token demo_settings (hours 2) TransportError ''nobody'' demo_token_world
     = (Inr None, demo_token_world)"
    by blast
  from refresh_access_token_amended [of demo_token_world "''u1''" demo_settings "hours 2"
      TransportError] down
  have 2: "fst (refresh_access_token demo_settings (hours 2) TransportError ''u1''
      demo_token_world) = Inr None"
    by blast
  from refresh_access_token_amended [of demo_token_world "''u1''" demo_settings "hours 2"
      "Response 401 None"] denied
  have 3: "fst (refresh_access_token demo_settings (hours 2) (Response 401 None) ''u1''
      demo_token_world) = Inr None
    \<and> user_tokens (snd (refresh_access_token demo_settings (hours 2) (Response 401 None) ''u1''
     demo_token_world)) = user_tokens demo_token_world"
    by blast
  from 1 2 3 show ?thesis by simp
qed

section \<open>Completing an authorization\<close>

lemma exchange_code_unknown_state:
  "pkce_store w state = None \<Longrightarrow>
     exchange_code cfg now token_answer userinfo_answer code state w = (Inl ValueError, w)"
  by (simp add: exchange_code_def)

lemma exchange_code_pkce:
  "pkce_store w state = Some entry \<Longrightarrow>
     pkce_store (snd (exchange_code cfg now token_answer userinfo_answer code state w))
       = (pkce_store w)(state := None)"
  by (simp add: exchange_code_def get_userinfo_def save_user_tokens_sync_def Let_def
      split: http_result.splits option.splits sum.splits)

lemma exchange_code_error_keeps_tokens:
  "fst (exchange_code cfg now token_answer userinfo_answer code state w) = Inl e \<Longrightarrow>
     user_tokens (snd (exchange_code cfg now token_answer userinfo_answer code state w))
       = user_tokens w"
  by (auto simp: exchange_code_def get_userinfo_def Let_def
      split: http_result.splits option.splits sum.splits if_splits)

lemma exchange_code_token_failed:
  "pkce_store w state = Some entry \<Longrightarrow> http_failed token_answer \<Longrightarrow>
     fst (exchange_code cfg now token_answer userinfo_answer code state w) = Inl HTTPError"
  by (simp add: exchange_code_def http_failed_def Let_def split: http_result.splits)

lemma exchange_code_userinfo_failed:
  "pkce_store w state = Some entry \<Longrightarrow> token_answer = Response status (Some tokens) \<Longrightarrow>
   is_success status \<Longrightarrow> j_access_token tokens = Some a \<Longrightarrow> http_failed userinfo_answer \<Longrightarrow>
     fst (exchange_code cfg now token_answer userinfo_answer code state w) = Inl HTTPError"
  by (simp add: exchange_code_def get_userinfo_def http_failed_def Let_def
      split: http_result.splits)

lemma exchange_code_requests:
  "pkce_store w state = Some entry \<Longrightarrow>
     \<exists>more. requests (snd (exchange_code cfg now token_answer userinfo_answer code state w))
       = requests w @ TokenPost
           [(''client_id'', client_id cfg), (''client_secret'', client_secret cfg),
            (''code'', code), (''code_verifier'', code_verifier entry),
            (''grant_type'', ''authorization_code''), (''redirect_uri'', redirect_uri cfg)] # more"
  by (simp add: exchange_code_def get_userinfo_def save_user_tokens_sync_def Let_def
      split: http_result.splits option.splits sum.splits)

text \<open>
  Claim C9. For a stored state, \<open>exchange_code\<close> removes the pending entry whatever the
  provider answers, and the token call it makes carries the removed verifier. If the
  token call or the userinfo call fails, the result is the HTTP error and no user record
  is written. Afterwards every call with the same state fails with the invalid-state
  error and changes nothing.
\<close>

theorem exchange_code_spends_state:
  assumes "pkce_store w state = Some entry"
  shows
    "pkce_store (snd (exchange_code cfg now token_answer userinfo_answer code state w))
       = (pkce_store w)(state := None) \<and>
     (\<exists>more. requests (snd (exchange_code cfg now token_answer userinfo_answer code state w))
       = requests w @ TokenPost
           [(''client_id'', client_id cfg), (''client_secret'', client_secret cfg),
            (''code'', code), (''code_verifier'', code_verifier entry),
            (''grant_type'', ''authorization_code''), (''redirect_uri'', redirect_uri cfg)] # more) \<and>
     (http_failed token_answer
        \<or> (\<exists>status tokens a. token_answer = Response status (Some tokens) \<and> is_success status
              \<and> j_access_token tokens = Some a \<and> http_failed userinfo_answer)
      \<longrightarrow> fst (exchange_code cfg now token_answer userinfo_answer code state w) = Inl HTTPError
          \<and> user_tokens (snd (exchange_code cfg now token_answer userinfo_answer code state w))
              = user_tokens w) \<and>
     (\<forall>now' token_answer' userinfo_answer' code'.
        exchange_code cfg now' token_answer' userinfo_answer' code' state
          (snd (exchange_code cfg now token_answer userinfo_answer code state w))
        = (Inl ValueError, snd (exchange_code cfg now token_answer userinfo_answer code state w)))"
proof -
  let ?r = "exchange_code cfg now token_answer userinfo_answer code state w"
  have spent: "pkce_store (snd ?r) = (pkce_store w)(state := None)"
    by (rule exchange_code_pkce [OF assms])
  then have gone: "pkce_store (snd ?r) state = None" by simp
  have retry: "\<forall>now' token_answer' userinfo_answer' code'.
        exchange_code cfg now' token_answer' userinfo_answer' code' state (snd ?r)
        = (Inl ValueError, snd ?r)"
    using gone by (simp add: exchange_code_unknown_state)
  have failed: "http_failed token_answer
        \<or> (\<exists>status tokens a. token_answer = Response status (Some tokens) \<and> is_success status
              \<and> j_access_token tokens = Some a \<and> http_failed userinfo_answer)
      \<longrightarrow> fst ?r = Inl HTTPError \<and> user_tokens (snd ?r) = user_tokens w"
  proof
    assume "http_failed token_answer
        \<or> (\<exists>status tokens a. token_answer = Response status (Some tokens) \<and> is_success status
              \<and> j_access_token tokens = Some a \<and> http_failed userinfo_answer)"
    then have e: "fst ?r = Inl HTTPError"
      using assms by (auto simp: exchange_code_token_failed exchange_code_userinfo_failed)
    from e exchange_code_error_keeps_tokens [OF e]
    show "fst ?r = Inl HTTPError \<and> user_tokens (snd ?r) = user_tokens w" by simp
  qed
  from spent exchange_code_requests [OF assms] failed retry show ?thesis by blast
qed

text \<open>C9 at the pending authorization of the example: a failed token call, a failed
  userinfo call, and the retry.\<close>

theorem exchange_code_spends_state_witness:
  "fst (exchange_code demo_settings (minutes 1) TransportError TransportError ''abc'' ''s1''
          demo_pending_world) = Inl HTTPError \<and>
   fst (exchange_code demo_settings (minutes 1)
          (Response 200 (Some \<lparr>j_access_token = Some ''at1'', j_refresh_token = Some ''rt1'',
                                j_expires_in = Some 3600\<rparr>))
          (Response 503 None) ''abc'' ''s1'' demo_pending_world) = Inl HTTPError \<and>
   user_tokens (snd (exchange_code demo_settings (minutes 1)
          (Response 200 (Some \<lparr>j_access_token = Some ''at1'', j_refresh_token = Some ''rt1'',
                                j_expires_in = Some 3600\<rparr>))
          (Response 503 None) ''abc'' ''s1'' demo_pending_world)) = Map.empty \<and>
   fst (exchange_code demo_settings (minutes 2)
          (Response 200 (Some \<lparr>j_access_token = Some ''at1'', j_refresh_token = Some ''rt1'',
                                j_expires_in = Some 3600\<rparr>))
          (Response 200 (Some \<lparr>u_sub = Some ''u1'', u_email = Some ''e@x.com'', u_name = None\<rparr>))
          ''abc'' ''s1''
          (snd (exchange_code demo_settings (minutes 1) TransportError TransportError ''abc'' ''s1''
                  demo_pending_world))) = Inl ValueError"
proof -
  let ?entry = "\<lparr>code_verifier = ''v1'', code_challenge = ''ch1''\<rparr>"
  let ?ok = "Response 200 (Some \<lparr>j_access_token = Some ''at1'', j_refresh_token = Some ''rt1'',
                                j_expires_in = Some 3600\<rparr>)"
  let ?info = "Response 200 (Some \<lparr>u_sub = Some ''u1'', u_email = Some ''e@x.com'', u_name = None\<rparr>)"
  have stored: "pkce_store demo_pending_world ''s1'' = Some ?entry"
    by (simp add: demo_pending_world_def empty_world_def)
  have none: "user_tokens demo_pending_world = Map.empty"
    by (simp add: demo_pending_world_def empty_world_def)
  note t1 = exchange_code_spends_state [OF stored, of demo_settings "minutes 1" TransportError
      TransportError "''abc''"]
  note t2 = exchange_code_spends_state [OF stored, of demo_settings "minutes 1" ?ok
      "Response 503 None" "''abc''"]
  have f1: "http_failed (TransportError :: token_json http_result)"
    by (simp add: http_failed_def)
  have f2: "\<exists>status tokens a. ?ok = Response status (Some tokens) \<and> is_success status
              \<and> j_access_token tokens = Some a
              \<and> http_failed (Response 503 None :: userinfo_json http_result)"
    by (simp add: http_failed_def is_success_def)
  from t1 f1 have a: "fst (exchange_code demo_settings (minutes 1) TransportError TransportError
      ''abc'' ''s1'' demo_pending_world) = Inl HTTPError"
    by blast
  from t2 f2 have b: "fst (exchange_code demo_settings (minutes 1) ?ok (Response 503 None)
      ''abc'' ''s1'' demo_pending_world) = Inl HTTPError
      \<and> user_tokens (snd (exchange_code demo_settings (minutes 1) ?ok (Response 503 None)
      ''abc'' ''s1'' demo_pending_world)) = user_tokens demo_pending_world"
    by blast
  from t1 have "\<forall>now' token_answer' userinfo_answer' code'.
        exchange_code demo_settings now' token_answer' userinfo_answer' code' ''s1''
          (snd (exchange_code demo_settings (minutes 1) TransportError TransportError ''abc'' ''s1''
                  demo_pending_world))
        = (Inl ValueError, snd (exchange_code demo_settings (minutes 1) TransportError
             TransportError ''abc'' ''s1'' demo_pending_world))"
    by blast
  then have c: "fst (exchange_code demo_settings (minutes 2) ?ok ?info ''abc'' ''s1''
          (snd (exchange_code demo_settings (minutes 1) TransportError TransportError ''abc'' ''s1''
                  demo_pending_world))) = Inl ValueError"
    by simp
  from a b c none show ?thesis by simp
qed

section \<open>PKCE\<close>

lemma b64_alphabet_length: "length b64_alphabet = 64"
  by (simp add: b64_alphabet_def)

lemma b64_char_not_pad: "b64_char i \<noteq> CHR ''=''"
proof -
  have "i mod 64 < length b64_alphabet" by (simp add: b64_alphabet_length)
  then have "b64_char i \<in> set b64_alphabet"
    unfolding b64_char_def by (rule nth_mem)
  moreover have "CHR ''='' \<notin> set b64_alphabet" by (simp add: b64_alphabet_def)
  ultimately show ?thesis by metis
qed

lemma rstrip_Nil: "rstrip c [] = []"
  by (simp add: rstrip_def)

lemma rstrip_pads: "rstrip c [c] = []" "rstrip c [c, c] = []"
  by (simp_all add: rstrip_def)

lemma rstrip_append:
  assumes "pre \<noteq> []" "last pre \<noteq> c"
  shows "rstrip c (pre @ zs) = pre @ rstrip c zs"
proof (cases "\<forall>z \<in> set zs. z = c")
  case True
  from assms have "rev pre \<noteq> []" "hd (rev pre) \<noteq> c" by (simp_all add: hd_rev)
  then have keep: "dropWhile (\<lambda>x. x = c) (rev pre) = rev pre"
    by (cases "rev pre") auto
  from True have "dropWhile (\<lambda>x. x = c) (rev zs @ rev pre) = dropWhile (\<lambda>x. x = c) (rev pre)"
    by (intro dropWhile_append2) simp
  moreover from True have "dropWhile (\<lambda>x. x = c) (rev zs) = []" by simp
  ultimately show ?thesis by (simp add: rstrip_def keep)
next
  case False
  then obtain z where "z \<in> set (rev zs)" "\<not> z = c" by auto
  then have "dropWhile (\<lambda>x. x = c) (rev zs @ rev pre) = dropWhile (\<lambda>x. x = c) (rev zs) @ rev pre"
    by (rule dropWhile_append1)
  then show ?thesis by (simp add: rstrip_def)
qed

lemma rstrip_urlsafe_b64encode:
  "rstrip CHR ''='' (urlsafe_b64encode bs) = base64url_nopad bs"
proof (induction bs rule: urlsafe_b64encode.induct)
  case 1
  show ?case by (simp add: rstrip_Nil)
next
  case (2 a)
  have "rstrip CHR ''='' ([b64_char (unat a div 4), b64_char (unat a mod 4 * 16)] @ [CHR ''='', CHR ''=''])
      = [b64_char (unat a div 4), b64_char (unat a mod 4 * 16)] @ rstrip CHR ''='' [CHR ''='', CHR ''='']"
    by (rule rstrip_append) (simp_all add: b64_char_not_pad)
  then show ?case by (simp add: rstrip_pads)
next
  case (3 a b)
  let ?pre = "[b64_char (unat a div 4), b64_char (unat a mod 4 * 16 + unat b div 16),
      b64_char (unat b mod 16 * 4)]"
  have "rstrip CHR ''='' (?pre @ [CHR ''='']) = ?pre @ rstrip CHR ''='' [CHR ''='']"
    by (rule rstrip_append) (simp_all add: b64_char_not_pad)
  then show ?case by (simp add: rstrip_pads)
next
  case (4 a b c rest)
  let ?pre = "[b64_char (unat a div 4), b64_char (unat a mod 4 * 16 + unat b div 16),
      b64_char (unat b mod 16 * 4 + unat c div 64), b64_char (unat c mod 64)]"
  have "rstrip CHR ''='' (?pre @ urlsafe_b64encode rest) = ?pre @ rstrip CHR ''='' (urlsafe_b64encode rest)"
    by (rule rstrip_append) (simp_all add: b64_char_not_pad)
  with 4 show ?case by simp
qed

lemma length_base64url_nopad: "length (base64url_nopad bs) = (4 * length bs + 2) div 3"
  by (induction bs rule: base64url_nopad.induct) simp_all

text \<open>
  Claim C8. For every draw of 32 random bytes, the challenge of \<open>generate_pkce\<close> is the
  unpadded base64url encoding of the digest of the verifier, and the verifier (the
  unpadded base64url encoding of the draw) has between 43 and 128 characters. This pair
  is what \<open>get_authorization_url\<close> stores under the new state.
\<close>

theorem generate_pkce_challenge:
  assumes "length random32 = 32"
  shows "snd (generate_pkce sha256 random32)
           = base64url_nopad (sha256 (encode_utf8 (fst (generate_pkce sha256 random32)))) \<and>
         fst (generate_pkce sha256 random32) = base64url_nopad random32 \<and>
         43 \<le> length (fst (generate_pkce sha256 random32)) \<and>
         length (fst (generate_pkce sha256 random32)) \<le> 128 \<and>
         pkce_store (snd (get_authorization_url cfg sha256 new_state random32 w)) new_state
           = Some \<lparr>code_verifier = fst (generate_pkce sha256 random32),
                   code_challenge = snd (generate_pkce sha256 random32)\<rparr>"
proof -
  have v: "fst (generate_pkce sha256 random32) = base64url_nopad random32"
    by (simp add: generate_pkce_def Let_def rstrip_urlsafe_b64encode)
  have c: "snd (generate_pkce sha256 random32)
           = base64url_nopad (sha256 (encode_utf8 (fst (generate_pkce sha256 random32))))"
    by (simp add: generate_pkce_def Let_def rstrip_urlsafe_b64encode)
  have l: "length (base64url_nopad random32) = 43"
    using assms by (simp add: length_base64url_nopad)
  have s: "pkce_store (snd (get_authorization_url cfg sha256 new_state random32 w)) new_state
           = Some \<lparr>code_verifier = fst (generate_pkce sha256 random32),
                   code_challenge = snd (generate_pkce sha256 random32)\<rparr>"
    by (simp add: get_authorization_url_def Let_def split: prod.splits)
  from v c l s show ?thesis by simp
qed

lemma demo_verifier:
  "urlsafe_b64encode demo_random32 = ''AAECAwQFBgcICQoLDA0ODxAREhMUFRYXGBkaGxwdHh8=''"
  by (simp add: demo_random32_def b64_char_def b64_alphabet_def)

text \<open>C8 at the draw of the example.\<close>

theorem generate_pkce_challenge_witness:
  "length demo_random32 = 32 \<and>
   fst (generate_pkce demo_digest demo_random32) = ''AAECAwQFBgcICQoLDA0ODxAREhMUFRYXGBkaGxwdHh8'' \<and>
   snd (generate_pkce demo_digest demo_random32)
     = base64url_nopad (demo_digest (encode_utf8 ''AAECAwQFBgcICQoLDA0ODxAREhMUFRYXGBkaGxwdHh8'')) \<and>
   43 \<le> length (fst (generate_pkce demo_digest demo_random32))"
proof -
  have len: "length demo_random32 = 32" by (simp add: demo_random32_def)
  have "base64url_nopad demo_random32 = rstrip CHR ''='' (urlsafe_b64encode demo_random32)"
    by (simp add: rstrip_urlsafe_b64encode)
  also have "\<dots> = ''AAECAwQFBgcICQoLDA0ODxAREhMUFRYXGBkaGxwdHh8''"
    by (simp add: demo_verifier rstrip_def)
  finally have v: "base64url_nopad demo_random32 = ''AAECAwQFBgcICQoLDA0ODxAREhMUFRYXGBkaGxwdHh8''" .
  from generate_pkce_challenge [OF len, of demo_digest] v len show ?thesis by simp
qed

end
